theory Spec2Isabelle
  imports Main
begin

section \<open>The cc-env command: data model\<close>

text \<open>
  A shallow embedding of \<^verbatim>\<open>cc-env.go\<close>. A Go function returning \<^verbatim>\<open>(T, error)\<close>
  is a HOL function returning a pair of a value and an \<open>error option\<close>, where
  \<open>None\<close> is Go's \<^verbatim>\<open>nil\<close> error; a failing call returns the zero value of \<^verbatim>\<open>T\<close>
  next to its error, as the source writes it (\<^verbatim>\<open>return EnvInfo{}, err\<close>).
\<close>

text \<open>
  Go's \<^verbatim>\<open>error\<close> values: \<^verbatim>\<open>errors.New(msg)\<close> builds an \<open>errorString\<close>; the errors of
  the file system (\<^verbatim>\<open>*os.PathError\<close>: operation, path, cause) are a second variant.
\<close>

datatype error =
    errorString string
  | PathError string string string

record MetaInfo =
  Version :: string

record PathInfo =
  Path :: string
  Resolved :: string

record CPUInfo =
  Vendor :: string
  Model :: string

record RuntimeConfigInfo =
  Location :: PathInfo
  GlobalLogPath :: string

record RuntimeVersionInfo =
  Semver :: string
  Commit :: string
  OCI :: string

record RuntimeInfo =
  Version :: RuntimeVersionInfo
  Config :: RuntimeConfigInfo

record ProxyInfo =
  Type :: string
  Version :: string
  URL :: string

record ShimInfo =
  Type :: string
  Version :: string
  Location :: PathInfo

record AgentInfo =
  Type :: string
  Version :: string
  PauseBin :: PathInfo

record DistroInfo =
  Name :: string
  Version :: string

record HostInfo =
  Kernel :: string
  Distro :: DistroInfo
  CPU :: CPUInfo
  CCCapable :: bool

record EnvInfo =
  Meta :: MetaInfo
  Runtime :: RuntimeInfo
  Hypervisor :: PathInfo
  Image :: PathInfo
  Kernel :: PathInfo
  Proxy :: ProxyInfo
  Shim :: ShimInfo
  Agent :: AgentInfo
  Host :: HostInfo

subsection \<open>The runtime configuration read by the command\<close>

text \<open>
  The types of \<^verbatim>\<open>virtcontainers\<close> and \<^verbatim>\<open>oci\<close>, with the fields this file reads.
  \<^verbatim>\<open>ProxyType\<close>, \<^verbatim>\<open>ShimType\<close> and \<^verbatim>\<open>AgentType\<close> are string types (the source converts
  them with \<^verbatim>\<open>string(...)\<close>).
\<close>

record CCProxyConfig =
  URL :: string

record CCShimConfig =
  Path :: string

record HyperConfig =
  PauseBinPath :: string

record HypervisorConfig =
  HypervisorPath :: string
  ImagePath :: string
  KernelPath :: string

text \<open>
  \<^verbatim>\<open>ProxyConfig\<close>, \<^verbatim>\<open>ShimConfig\<close> and \<^verbatim>\<open>AgentConfig\<close> are \<^verbatim>\<open>interface{}\<close> values: a
  dynamic type with its value, or \<^verbatim>\<open>nil\<close>. A type assertion \<^verbatim>\<open>x.(T)\<close> succeeds exactly
  when the dynamic type is \<^verbatim>\<open>T\<close>.
\<close>

datatype config_value =
    NilValue
  | CCProxyConfigValue CCProxyConfig
  | CCShimConfigValue CCShimConfig
  | HyperConfigValue HyperConfig
  | OtherValue string

record RuntimeConfig =
  HypervisorConfig :: HypervisorConfig
  ProxyType :: string
  ProxyConfig :: config_value
  ShimType :: string
  ShimConfig :: config_value
  AgentType :: string
  AgentConfig :: config_value

text \<open>The values of the \<^verbatim>\<open>map[string]interface{}\<close> held in \<^verbatim>\<open>context.App.Metadata\<close>.\<close>

datatype metadata_value =
    StringValue string
  | RuntimeConfigValue RuntimeConfig
  | IntValue int
  | BoolValue bool

subsection \<open>What the file takes from outside\<close>

text \<open>
  The functions and constants that \<^verbatim>\<open>cc-env.go\<close> uses and does not define are the
  fields of one record: the file system (\<^verbatim>\<open>filepath.EvalSymlinks\<close>), the host probes,
  \<^verbatim>\<open>getHypervisorDetails\<close>, the build constants \<^verbatim>\<open>version\<close>, \<^verbatim>\<open>commit\<close>,
  \<^verbatim>\<open>specs.Version\<close>, \<^verbatim>\<open>unknown\<close> and \<^verbatim>\<open>procCPUInfo\<close>, the TOML encoder and the write
  to a file. A file is the text written to it so far.
\<close>

type_synonym File = string

record world =
  EvalSymlinks :: "string \<Rightarrow> string \<times> error option"
  getKernelVersion :: "string \<times> error option"
  getDistroDetails :: "string \<times> string \<times> error option"
  getCPUDetails :: "string \<times> string \<times> error option"
  hostIsClearContainersCapable :: "string \<Rightarrow> error option"
  getHypervisorDetails :: "RuntimeConfig \<Rightarrow> HypervisorConfig \<times> error option"
  version :: string
  commit :: string
  specsVersion :: string
  unknown :: string
  procCPUInfo :: string
  tomlEncode :: "EnvInfo \<Rightarrow> string \<times> error option"
  Fprintf :: "File \<Rightarrow> string \<Rightarrow> File \<times> error option"

section \<open>The functions of cc-env.go\<close>

definition formatVersion :: string where
  "formatVersion = ''1.0.0''"

text \<open>The zero values \<^verbatim>\<open>T{}\<close> of the structs.\<close>

definition zeroPathInfo :: PathInfo where
  "zeroPathInfo = \<lparr>PathInfo.Path = [], Resolved = []\<rparr>"

definition zeroRuntimeInfo :: RuntimeInfo where
  "zeroRuntimeInfo =
     \<lparr>RuntimeInfo.Version = \<lparr>Semver = [], Commit = [], OCI = []\<rparr>,
      Config = \<lparr>RuntimeConfigInfo.Location = zeroPathInfo, GlobalLogPath = []\<rparr>\<rparr>"

definition zeroHostInfo :: HostInfo where
  "zeroHostInfo =
     \<lparr>HostInfo.Kernel = [],
      Distro = \<lparr>Name = [], DistroInfo.Version = []\<rparr>,
      CPU = \<lparr>Vendor = [], Model = []\<rparr>,
      CCCapable = False\<rparr>"

definition zeroProxyInfo :: ProxyInfo where
  "zeroProxyInfo = \<lparr>ProxyInfo.Type = [], ProxyInfo.Version = [], ProxyInfo.URL = []\<rparr>"

definition zeroShimInfo :: ShimInfo where
  "zeroShimInfo = \<lparr>ShimInfo.Type = [], ShimInfo.Version = [], ShimInfo.Location = zeroPathInfo\<rparr>"

definition zeroAgentInfo :: AgentInfo where
  "zeroAgentInfo = \<lparr>AgentInfo.Type = [], AgentInfo.Version = [], PauseBin = zeroPathInfo\<rparr>"

definition zeroEnvInfo :: EnvInfo where
  "zeroEnvInfo =
     \<lparr>Meta = \<lparr>MetaInfo.Version = []\<rparr>,
      Runtime = zeroRuntimeInfo,
      Hypervisor = zeroPathInfo,
      Image = zeroPathInfo,
      EnvInfo.Kernel = zeroPathInfo,
      Proxy = zeroProxyInfo,
      Shim = zeroShimInfo,
      Agent = zeroAgentInfo,
      Host = zeroHostInfo\<rparr>"

text \<open>
  The type assertions \<^verbatim>\<open>v, ok := x.(T)\<close>: the value and \<open>True\<close> when the dynamic
  type of \<open>x\<close> is \<^verbatim>\<open>T\<close>, the zero value of \<^verbatim>\<open>T\<close> and \<open>False\<close> otherwise (also for
  \<^verbatim>\<open>nil\<close>, and for the missing key of a map).
\<close>

definition assertCCProxyConfig :: "config_value \<Rightarrow> CCProxyConfig \<times> bool" where
  "assertCCProxyConfig x =
     (case x of CCProxyConfigValue v \<Rightarrow> (v, True) | _ \<Rightarrow> (\<lparr>CCProxyConfig.URL = []\<rparr>, False))"

definition assertCCShimConfig :: "config_value \<Rightarrow> CCShimConfig \<times> bool" where
  "assertCCShimConfig x =
     (case x of CCShimConfigValue v \<Rightarrow> (v, True) | _ \<Rightarrow> (\<lparr>CCShimConfig.Path = []\<rparr>, False))"

definition assertHyperConfig :: "config_value \<Rightarrow> HyperConfig \<times> bool" where
  "assertHyperConfig x =
     (case x of HyperConfigValue v \<Rightarrow> (v, True) | _ \<Rightarrow> (\<lparr>PauseBinPath = []\<rparr>, False))"

definition zeroRuntimeConfig :: RuntimeConfig where
  "zeroRuntimeConfig =
     \<lparr>HypervisorConfig = \<lparr>HypervisorPath = [], ImagePath = [], KernelPath = []\<rparr>,
      ProxyType = [], ProxyConfig = NilValue,
      ShimType = [], ShimConfig = NilValue,
      AgentType = [], AgentConfig = NilValue\<rparr>"

definition assertString :: "metadata_value option \<Rightarrow> string \<times> bool" where
  "assertString x = (case x of Some (StringValue v) \<Rightarrow> (v, True) | _ \<Rightarrow> ([], False))"

definition assertRuntimeConfig :: "metadata_value option \<Rightarrow> RuntimeConfig \<times> bool" where
  "assertRuntimeConfig x =
     (case x of Some (RuntimeConfigValue v) \<Rightarrow> (v, True) | _ \<Rightarrow> (zeroRuntimeConfig, False))"

definition getMetaInfo :: MetaInfo where
  "getMetaInfo = \<lparr>MetaInfo.Version = formatVersion\<rparr>"

definition getRuntimeInfo ::
  "world \<Rightarrow> string \<Rightarrow> string \<Rightarrow> RuntimeConfig \<Rightarrow> RuntimeInfo \<times> error option" where
  "getRuntimeInfo w configFile logFile config =
     (case EvalSymlinks w configFile of
        (configFileResolved, Some err) \<Rightarrow> (zeroRuntimeInfo, Some err)
      | (configFileResolved, None) \<Rightarrow>
          (let runtimeVersion =
                 \<lparr>Semver = version w, Commit = commit w, OCI = specsVersion w\<rparr>;
               runtimeConfig =
                 \<lparr>RuntimeConfigInfo.Location =
                    \<lparr>PathInfo.Path = configFile, Resolved = configFileResolved\<rparr>,
                  GlobalLogPath = logFile\<rparr>;
               ccRuntime =
                 \<lparr>RuntimeInfo.Version = runtimeVersion, Config = runtimeConfig\<rparr>
           in (ccRuntime, None)))"

definition getHostInfo :: "world \<Rightarrow> HostInfo \<times> error option" where
  "getHostInfo w =
     (case getKernelVersion w of
        (hostKernelVersion, Some err) \<Rightarrow> (zeroHostInfo, Some err)
      | (hostKernelVersion, None) \<Rightarrow>
     (case getDistroDetails w of
        (hostDistroName, hostDistroVersion, Some err) \<Rightarrow> (zeroHostInfo, Some err)
      | (hostDistroName, hostDistroVersion, None) \<Rightarrow>
     (case getCPUDetails w of
        (cpuVendor, cpuModel, Some err) \<Rightarrow> (zeroHostInfo, Some err)
      | (cpuVendor, cpuModel, None) \<Rightarrow>
          (let hostCCCapable =
                 (case hostIsClearContainersCapable w (procCPUInfo w) of
                    Some err \<Rightarrow> False
                  | None \<Rightarrow> True);
               hostDistro = \<lparr>Name = hostDistroName, DistroInfo.Version = hostDistroVersion\<rparr>;
               hostCPU = \<lparr>Vendor = cpuVendor, Model = cpuModel\<rparr>;
               ccHost =
                 \<lparr>HostInfo.Kernel = hostKernelVersion,
                  Distro = hostDistro,
                  CPU = hostCPU,
                  CCCapable = hostCCCapable\<rparr>
           in (ccHost, None)))))"

definition getProxyInfo :: "world \<Rightarrow> RuntimeConfig \<Rightarrow> ProxyInfo \<times> error option" where
  "getProxyInfo w config =
     (case assertCCProxyConfig (ProxyConfig config) of
        (proxyConfig, False) \<Rightarrow>
          (zeroProxyInfo, Some (errorString ''cannot determine proxy config''))
      | (proxyConfig, True) \<Rightarrow>
          (let proxyURL = CCProxyConfig.URL proxyConfig;
               ccProxy =
                 \<lparr>ProxyInfo.Type = ProxyType config,
                  ProxyInfo.Version = unknown w,
                  ProxyInfo.URL = proxyURL\<rparr>
           in (ccProxy, None)))"

definition getShimInfo :: "world \<Rightarrow> RuntimeConfig \<Rightarrow> ShimInfo \<times> error option" where
  "getShimInfo w config =
     (case assertCCShimConfig (ShimConfig config) of
        (shimConfig, False) \<Rightarrow>
          (zeroShimInfo, Some (errorString ''cannot determine shim config''))
      | (shimConfig, True) \<Rightarrow>
          (let shimPath = CCShimConfig.Path shimConfig
           in case EvalSymlinks w shimPath of
                (shimPathResolved, Some err) \<Rightarrow> (zeroShimInfo, Some err)
              | (shimPathResolved, None) \<Rightarrow>
                  (let ccShim =
                         \<lparr>ShimInfo.Type = ShimType config,
                          ShimInfo.Version = unknown w,
                          ShimInfo.Location =
                            \<lparr>PathInfo.Path = shimPath, Resolved = shimPathResolved\<rparr>\<rparr>
                   in (ccShim, None))))"

definition getAgentInfo :: "world \<Rightarrow> RuntimeConfig \<Rightarrow> AgentInfo \<times> error option" where
  "getAgentInfo w config =
     (case assertHyperConfig (AgentConfig config) of
        (agentConfig, False) \<Rightarrow>
          (zeroAgentInfo, Some (errorString ''cannot determine agent config''))
      | (agentConfig, True) \<Rightarrow>
          (let agentBinPath = PauseBinPath agentConfig
           in case EvalSymlinks w agentBinPath of
                (agentBinPathResolved, Some err) \<Rightarrow> (zeroAgentInfo, Some err)
              | (agentBinPathResolved, None) \<Rightarrow>
                  (let ccAgent =
                         \<lparr>AgentInfo.Type = AgentType config,
                          AgentInfo.Version = unknown w,
                          PauseBin =
                            \<lparr>PathInfo.Path = agentBinPath, Resolved = agentBinPathResolved\<rparr>\<rparr>
                   in (ccAgent, None))))"

definition getEnvInfo ::
  "world \<Rightarrow> string \<Rightarrow> string \<Rightarrow> RuntimeConfig \<Rightarrow> EnvInfo \<times> error option" where
  "getEnvInfo w configFile logfilePath config =
     (let meta = getMetaInfo in
      case getRuntimeInfo w configFile logfilePath config of
        (ccRuntime, Some err) \<Rightarrow> (zeroEnvInfo, Some err)
      | (ccRuntime, None) \<Rightarrow>
     (case getHypervisorDetails w config of
        (resolvedHypervisor, Some err) \<Rightarrow> (zeroEnvInfo, Some err)
      | (resolvedHypervisor, None) \<Rightarrow>
     (case getHostInfo w of
        (ccHost, Some err) \<Rightarrow> (zeroEnvInfo, Some err)
      | (ccHost, None) \<Rightarrow>
     (case getProxyInfo w config of
        (ccProxy, Some err) \<Rightarrow> (zeroEnvInfo, Some err)
      | (ccProxy, None) \<Rightarrow>
     (case getShimInfo w config of
        (ccShim, Some err) \<Rightarrow> (zeroEnvInfo, Some err)
      | (ccShim, None) \<Rightarrow>
     (case getAgentInfo w config of
        (ccAgent, Some err) \<Rightarrow> (zeroEnvInfo, Some err)
      | (ccAgent, None) \<Rightarrow>
          (let hypervisor =
                 \<lparr>PathInfo.Path = HypervisorPath (HypervisorConfig config),
                  Resolved = HypervisorPath resolvedHypervisor\<rparr>;
               image =
                 \<lparr>PathInfo.Path = ImagePath (HypervisorConfig config),
                  Resolved = ImagePath resolvedHypervisor\<rparr>;
               kernel =
                 \<lparr>PathInfo.Path = KernelPath (HypervisorConfig config),
                  Resolved = KernelPath resolvedHypervisor\<rparr>;
               env =
                 \<lparr>Meta = meta,
                  Runtime = ccRuntime,
                  Hypervisor = hypervisor,
                  Image = image,
                  EnvInfo.Kernel = kernel,
                  Proxy = ccProxy,
                  Shim = ccShim,
                  Agent = ccAgent,
                  Host = ccHost\<rparr>
           in (env, None))))))))"

text \<open>
  \<^verbatim>\<open>showSettings\<close> encodes into a buffer and prints the buffer to the file; it returns
  the file after the call and the error.
\<close>

definition showSettings :: "world \<Rightarrow> EnvInfo \<Rightarrow> File \<Rightarrow> File \<times> error option" where
  "showSettings w ccEnv f =
     (case tomlEncode w ccEnv of
        (buf, Some err) \<Rightarrow> (f, Some err)
      | (buf, None) \<Rightarrow> Fprintf w f buf)"

text \<open>
  \<^verbatim>\<open>handleSettings\<close> reads three entries of the metadata map, each with a type
  assertion, and prints to standard output, which is passed in and returned.
\<close>

definition handleSettings ::
  "world \<Rightarrow> (string \<rightharpoonup> metadata_value) \<Rightarrow> File \<Rightarrow> File \<times> error option" where
  "handleSettings w metadata stdout =
     (case assertString (metadata ''configFile'') of
        (configFile, False) \<Rightarrow> (stdout, Some (errorString ''cannot determine config file''))
      | (configFile, True) \<Rightarrow>
     (case assertRuntimeConfig (metadata ''runtimeConfig'') of
        (runtimeConfig, False) \<Rightarrow>
          (stdout, Some (errorString ''cannot determine runtime config''))
      | (runtimeConfig, True) \<Rightarrow>
     (case assertString (metadata ''logfilePath'') of
        (logfilePath, False) \<Rightarrow>
          (stdout, Some (errorString ''cannot determine logfile config''))
      | (logfilePath, True) \<Rightarrow>
     (case getEnvInfo w configFile logfilePath runtimeConfig of
        (ccEnv, Some err) \<Rightarrow> (stdout, Some err)
      | (ccEnv, None) \<Rightarrow> showSettings w ccEnv stdout))))"

section \<open>Definitions used to state the properties\<close>

text \<open>
  Modelled from the spec: \<^verbatim>\<open>getHypervisorDetails\<close> is called by \<^verbatim>\<open>getEnvInfo\<close> and
  defined in another file of the repository. The spec says of it: "Resolve
  hypervisor/image/kernel paths from the runtime configuration's hypervisor section (these
  resolutions are assumed to have been performed upstream by a collaborator and are
  merely read here -- if unresolved, construction fails)", and a resolved path is "the
  canonical filesystem path obtained after following all symlinks from an original
  path". So each of the three paths is resolved with the given symlink resolution, in
  the order hypervisor, image, kernel, and the first failure is returned.
\<close>

definition getHypervisorDetails_spec ::
  "(string \<Rightarrow> string \<times> error option) \<Rightarrow> RuntimeConfig \<Rightarrow> HypervisorConfig \<times> error option" where
  "getHypervisorDetails_spec resolve config =
     (let zero = \<lparr>HypervisorPath = [], ImagePath = [], KernelPath = []\<rparr> in
      case resolve (HypervisorPath (HypervisorConfig config)) of
        (hypervisorPath, Some err) \<Rightarrow> (zero, Some err)
      | (hypervisorPath, None) \<Rightarrow>
     (case resolve (ImagePath (HypervisorConfig config)) of
        (imagePath, Some err) \<Rightarrow> (zero, Some err)
      | (imagePath, None) \<Rightarrow>
     (case resolve (KernelPath (HypervisorConfig config)) of
        (kernelPath, Some err) \<Rightarrow> (zero, Some err)
      | (kernelPath, None) \<Rightarrow>
          (\<lparr>HypervisorPath = hypervisorPath, ImagePath = imagePath, KernelPath = kernelPath\<rparr>,
           None))))"

text \<open>
  Modelled from the spec: the encoder that \<^verbatim>\<open>showSettings\<close> calls
  (\<^verbatim>\<open>toml.NewEncoder(buf).Encode\<close>) belongs to a library outside \<^verbatim>\<open>cc-env.go\<close>. The
  spec says of the renderer: it "serializes the aggregate into a structured, nested
  key-value text format (tables/sections mirroring the aggregate's field hierarchy)",
  "serialization is total over any valid \<^verbatim>\<open>EnvInfo\<close> value", and the document's
  "top-level sections are: \<^verbatim>\<open>Meta\<close>, \<^verbatim>\<open>Runtime\<close>, \<^verbatim>\<open>Hypervisor\<close>/\<^verbatim>\<open>Image\<close>/\<^verbatim>\<open>Kernel\<close>,
  \<^verbatim>\<open>Proxy\<close>, \<^verbatim>\<open>Shim\<close>, \<^verbatim>\<open>Agent\<close>, \<^verbatim>\<open>Host\<close>". So the document has one section for each
  struct of the aggregate, headed by the path of its fields in brackets, with one line
  \<^verbatim>\<open>key = value\<close> for each string or boolean field, in the order of the fields; a string
  is written between double quotes, with a backslash before a double quote or a
  backslash. The encoder never fails.
\<close>

definition quoted :: "string \<Rightarrow> string" where
  "quoted s =
     [CHR 0x22] @
     concat (map (\<lambda>c. if c = CHR 0x22 \<or> c = CHR 0x5C then [CHR 0x5C, c] else [c]) s) @
     [CHR 0x22]"

definition sectionLine :: "string \<Rightarrow> string" where
  "sectionLine name = ''['' @ name @ '']''"

definition stringLine :: "string \<Rightarrow> string \<Rightarrow> string" where
  "stringLine key v = key @ '' = '' @ quoted v"

definition boolLine :: "string \<Rightarrow> bool \<Rightarrow> string" where
  "boolLine key b = key @ '' = '' @ (if b then ''true'' else ''false'')"

definition pathInfoLines :: "string \<Rightarrow> PathInfo \<Rightarrow> string list" where
  "pathInfoLines name p =
     [sectionLine name,
      stringLine ''Path'' (PathInfo.Path p),
      stringLine ''Resolved'' (Resolved p)]"

definition documentLines :: "EnvInfo \<Rightarrow> string list" where
  "documentLines env =
     [sectionLine ''Meta'',
      stringLine ''Version'' (MetaInfo.Version (Meta env)),
      sectionLine ''Runtime'',
      sectionLine ''Runtime.Version'',
      stringLine ''Semver'' (Semver (RuntimeInfo.Version (Runtime env))),
      stringLine ''Commit'' (Commit (RuntimeInfo.Version (Runtime env))),
      stringLine ''OCI'' (OCI (RuntimeInfo.Version (Runtime env))),
      sectionLine ''Runtime.Config'',
      stringLine ''GlobalLogPath'' (GlobalLogPath (Config (Runtime env)))] @
     pathInfoLines ''Runtime.Config.Location''
       (RuntimeConfigInfo.Location (Config (Runtime env))) @
     pathInfoLines ''Hypervisor'' (Hypervisor env) @
     pathInfoLines ''Image'' (Image env) @
     pathInfoLines ''Kernel'' (EnvInfo.Kernel env) @
     [sectionLine ''Proxy'',
      stringLine ''Type'' (ProxyInfo.Type (Proxy env)),
      stringLine ''Version'' (ProxyInfo.Version (Proxy env)),
      stringLine ''URL'' (ProxyInfo.URL (Proxy env)),
      sectionLine ''Shim'',
      stringLine ''Type'' (ShimInfo.Type (Shim env)),
      stringLine ''Version'' (ShimInfo.Version (Shim env))] @
     pathInfoLines ''Shim.Location'' (ShimInfo.Location (Shim env)) @
     [sectionLine ''Agent'',
      stringLine ''Type'' (AgentInfo.Type (Agent env)),
      stringLine ''Version'' (AgentInfo.Version (Agent env))] @
     pathInfoLines ''Agent.PauseBin'' (PauseBin (Agent env)) @
     [sectionLine ''Host'',
      stringLine ''Kernel'' (HostInfo.Kernel (Host env)),
      boolLine ''CCCapable'' (CCCapable (Host env)),
      sectionLine ''Host.Distro'',
      stringLine ''Name'' (Name (Distro (Host env))),
      stringLine ''Version'' (DistroInfo.Version (Distro (Host env))),
      sectionLine ''Host.CPU'',
      stringLine ''Vendor'' (Vendor (CPU (Host env))),
      stringLine ''Model'' (Model (CPU (Host env)))]"

text \<open>The text of a document: its lines, each ended by a line feed.\<close>

definition unlines :: "string list \<Rightarrow> string" where
  "unlines ls = concat (map (\<lambda>l. l @ [CHR 0x0A]) ls)"

definition tomlEncode_spec :: "EnvInfo \<Rightarrow> string \<times> error option" where
  "tomlEncode_spec env = (unlines (documentLines env), None)"

text \<open>The first error of a sequence of steps, \<open>None\<close> when every step succeeds.\<close>

fun firstError :: "error option list \<Rightarrow> error option" where
  "firstError [] = None"
| "firstError (Some e # es) = Some e"
| "firstError (None # es) = firstError es"

text \<open>
  The errors of the fallible steps of a snapshot in the order of the calls in
  \<^verbatim>\<open>getEnvInfo\<close>: runtime information, hypervisor details, the host probes (kernel
  version, distribution, CPU), proxy, shim, agent.
\<close>

definition stepsInCodeOrder ::
  "world \<Rightarrow> string \<Rightarrow> string \<Rightarrow> RuntimeConfig \<Rightarrow> error option list" where
  "stepsInCodeOrder w configFile logfilePath config =
     [snd (getRuntimeInfo w configFile logfilePath config),
      snd (getHypervisorDetails w config),
      snd (getKernelVersion w),
      snd (snd (getDistroDetails w)),
      snd (snd (getCPUDetails w)),
      snd (getProxyInfo w config),
      snd (getShimInfo w config),
      snd (getAgentInfo w config)]"

text \<open>
  The same errors in the order of the steps 2 to 7 of the spec: runtime information, the
  host probes, proxy, shim, agent, and the hypervisor, image and kernel paths last.
\<close>

definition stepsInSpecOrder ::
  "world \<Rightarrow> string \<Rightarrow> string \<Rightarrow> RuntimeConfig \<Rightarrow> error option list" where
  "stepsInSpecOrder w configFile logfilePath config =
     [snd (getRuntimeInfo w configFile logfilePath config),
      snd (getKernelVersion w),
      snd (snd (getDistroDetails w)),
      snd (snd (getCPUDetails w)),
      snd (getProxyInfo w config),
      snd (getShimInfo w config),
      snd (getAgentInfo w config),
      snd (getHypervisorDetails w config)]"

text \<open>
  The invariant of a \<^verbatim>\<open>PathInfo\<close>: its resolved form is what symlink resolution returns
  for its path, without error.
\<close>

definition resolvedPathInfo :: "world \<Rightarrow> PathInfo \<Rightarrow> bool" where
  "resolvedPathInfo w p = (EvalSymlinks w (PathInfo.Path p) = (Resolved p, None))"

text \<open>
  The metadata that the application stores for the command: the three entries that
  \<^verbatim>\<open>handleSettings\<close> reads.
\<close>

definition appMetadata :: "string \<Rightarrow> RuntimeConfig \<Rightarrow> string \<Rightarrow> (string \<rightharpoonup> metadata_value)" where
  "appMetadata configFile runtimeConfig logfilePath =
     [''configFile'' \<mapsto> StringValue configFile,
      ''runtimeConfig'' \<mapsto> RuntimeConfigValue runtimeConfig,
      ''logfilePath'' \<mapsto> StringValue logfilePath]"

subsection \<open>A concrete host and configuration\<close>

text \<open>
  The scenario of the spec: the configuration file \<^verbatim>\<open>/etc/runtime/config.toml\<close> exists
  and resolves to itself, the shim \<^verbatim>\<open>/usr/bin/shim\<close> is a symlink to
  \<^verbatim>\<open>/usr/bin/shim-v2\<close>, and every other path below resolves to itself; any other path
  does not exist. The hypervisor details and the encoder are the ones modelled from the
  spec, and a write to a file appends the text.
\<close>

definition scenarioEvalSymlinks :: "string \<Rightarrow> string \<times> error option" where
  "scenarioEvalSymlinks p =
     (if p = ''/usr/bin/shim'' then (''/usr/bin/shim-v2'', None)
      else if p \<in> set [''/etc/runtime/config.toml'', ''/usr/bin/shim-v2'',
                        ''/usr/libexec/pause'', ''/usr/bin/qemu'',
                        ''/usr/share/image.img'', ''/usr/share/vmlinuz'']
      then (p, None)
      else ([], Some (PathError ''lstat'' p ''no such file or directory'')))"

definition scenarioWorld :: world where
  "scenarioWorld =
     \<lparr>EvalSymlinks = scenarioEvalSymlinks,
      getKernelVersion = (''4.9.0'', None),
      getDistroDetails = (''clear-linux-os'', ''16330'', None),
      getCPUDetails = (''GenuineIntel'', ''Intel(R) Core(TM) i7'', None),
      hostIsClearContainersCapable = (\<lambda>cpuinfo. None),
      getHypervisorDetails = getHypervisorDetails_spec scenarioEvalSymlinks,
      version = ''3.0.0'',
      commit = ''0123abc'',
      specsVersion = ''1.0.0-rc5'',
      unknown = ''<<unknown>>'',
      procCPUInfo = ''/proc/cpuinfo'',
      tomlEncode = tomlEncode_spec,
      Fprintf = (\<lambda>f text. (f @ text, None))\<rparr>"

definition scenarioConfig :: RuntimeConfig where
  "scenarioConfig =
     \<lparr>HypervisorConfig =
        \<lparr>HypervisorPath = ''/usr/bin/qemu'',
         ImagePath = ''/usr/share/image.img'',
         KernelPath = ''/usr/share/vmlinuz''\<rparr>,
      ProxyType = ''ccProxy'',
      ProxyConfig = CCProxyConfigValue \<lparr>CCProxyConfig.URL = ''unix:///run/proxy.sock''\<rparr>,
      ShimType = ''ccShim'',
      ShimConfig = CCShimConfigValue \<lparr>CCShimConfig.Path = ''/usr/bin/shim''\<rparr>,
      AgentType = ''hyperstart'',
      AgentConfig = HyperConfigValue \<lparr>PauseBinPath = ''/usr/libexec/pause''\<rparr>\<rparr>"

text \<open>
  A host where two things are wrong at once: the kernel version cannot be read, and
  \<^verbatim>\<open>getHypervisorDetails\<close> fails on the hypervisor path.
\<close>

definition brokenHostWorld :: world where
  "brokenHostWorld =
     scenarioWorld
       \<lparr>getKernelVersion := ([], Some (errorString ''cannot read kernel version'')),
        getHypervisorDetails :=
          (\<lambda>config.
             (\<lparr>HypervisorPath = [], ImagePath = [], KernelPath = []\<rparr>,
              Some (PathError ''lstat'' (HypervisorPath (HypervisorConfig config))
                      ''no such file or directory'')))\<rparr>"

text \<open>The host of the scenario, on a CPU without support for virtualization.\<close>

definition incapableWorld :: world where
  "incapableWorld =
     scenarioWorld
       \<lparr>hostIsClearContainersCapable :=
          (\<lambda>cpuinfo. Some (errorString ''CPU does not support virtualization''))\<rparr>"

text \<open>The host of the scenario, with a kernel version that cannot be read.\<close>

definition noKernelVersionWorld :: world where
  "noKernelVersionWorld =
     scenarioWorld\<lparr>getKernelVersion := ([], Some (errorString ''cannot read kernel version''))\<rparr>"

text \<open>
  The six \<^verbatim>\<open>PathInfo\<close> values of an \<^verbatim>\<open>EnvInfo\<close>, and the six paths they are built
  from: the configuration file, the three paths of the hypervisor section, the path of
  the shim and the pause binary of the agent.
\<close>

definition pathInfos :: "EnvInfo \<Rightarrow> PathInfo list" where
  "pathInfos env =
     [RuntimeConfigInfo.Location (Config (Runtime env)),
      Hypervisor env, Image env, EnvInfo.Kernel env,
      ShimInfo.Location (Shim env),
      PauseBin (Agent env)]"

definition configuredPaths :: "string \<Rightarrow> RuntimeConfig \<Rightarrow> string list" where
  "configuredPaths configFile config =
     [configFile,
      HypervisorPath (HypervisorConfig config),
      ImagePath (HypervisorConfig config),
      KernelPath (HypervisorConfig config),
      CCShimConfig.Path (fst (assertCCShimConfig (ShimConfig config))),
      PauseBinPath (fst (assertHyperConfig (AgentConfig config)))]"

section \<open>Properties\<close>

subsection \<open>Which error a snapshot returns\<close>

lemma getRuntimeInfo_error:
  "snd (getRuntimeInfo w configFile logFile config) = snd (EvalSymlinks w configFile)"
  by (simp add: getRuntimeInfo_def split: prod.splits option.splits)

lemma getHostInfo_error:
  "snd (getHostInfo w) =
     firstError [snd (getKernelVersion w), snd (snd (getDistroDetails w)),
                 snd (snd (getCPUDetails w))]"
  by (simp add: getHostInfo_def Let_def split: prod.splits option.splits)

lemma getEnvInfo_error:
  "snd (getEnvInfo w configFile logfilePath config) =
     firstError [snd (getRuntimeInfo w configFile logfilePath config),
                 snd (getHypervisorDetails w config),
                 snd (getHostInfo w),
                 snd (getProxyInfo w config),
                 snd (getShimInfo w config),
                 snd (getAgentInfo w config)]"
  by (simp add: getEnvInfo_def Let_def split: prod.splits option.splits)

lemma getEnvInfo_zero:
  "snd (getEnvInfo w configFile logfilePath config) = Some e \<Longrightarrow>
   fst (getEnvInfo w configFile logfilePath config) = zeroEnvInfo"
  by (simp add: getEnvInfo_def Let_def split: prod.splits option.splits)

lemma handleSettings_appMetadata:
  "handleSettings w (appMetadata configFile config logfilePath) out =
     (case getEnvInfo w configFile logfilePath config of
        (ccEnv, Some err) \<Rightarrow> (out, Some err)
      | (ccEnv, None) \<Rightarrow> showSettings w ccEnv out)"
  by (simp add: handleSettings_def appMetadata_def assertString_def assertRuntimeConfig_def)

lemma handleSettings_fails:
  "snd (getEnvInfo w configFile logfilePath config) = Some e \<Longrightarrow>
   handleSettings w (appMetadata configFile config logfilePath) out = (out, Some e)"
  by (cases "getEnvInfo w configFile logfilePath config") (simp add: handleSettings_appMetadata)

subsection \<open>An unresolvable configuration file\<close>

text \<open>
  Claim C3. When symlink resolution fails on the path of the configuration file,
  \<^verbatim>\<open>getEnvInfo\<close> returns that error of the resolution together with the zero \<^verbatim>\<open>EnvInfo\<close>,
  whatever the log path, the configuration and the rest of the host are; and
  \<^verbatim>\<open>handleSettings\<close>, run on these inputs, returns the same error and leaves standard
  output as it was.
\<close>

theorem config_file_unresolved_aborts:
  assumes "snd (EvalSymlinks w configFile) = Some e"
  shows "getEnvInfo w configFile logfilePath config = (zeroEnvInfo, Some e) \<and>
         handleSettings w (appMetadata configFile config logfilePath) out = (out, Some e)"
proof -
  have err: "snd (getEnvInfo w configFile logfilePath config) = Some e"
    using assms by (simp add: getEnvInfo_error getRuntimeInfo_error)
  then have "fst (getEnvInfo w configFile logfilePath config) = zeroEnvInfo"
    by (rule getEnvInfo_zero)
  with err have "getEnvInfo w configFile logfilePath config = (zeroEnvInfo, Some e)"
    by (simp add: prod_eq_iff)
  moreover have "handleSettings w (appMetadata configFile config logfilePath) out = (out, Some e)"
    using err by (rule handleSettings_fails)
  ultimately show ?thesis by simp
qed

theorem config_file_unresolved_aborts_witness:
  "snd (EvalSymlinks scenarioWorld ''/etc/runtime/missing.toml'') =
     Some (PathError ''lstat'' ''/etc/runtime/missing.toml'' ''no such file or directory'') \<and>
   getEnvInfo scenarioWorld ''/etc/runtime/missing.toml'' ''/var/log/runtime.log'' scenarioConfig =
     (zeroEnvInfo,
      Some (PathError ''lstat'' ''/etc/runtime/missing.toml'' ''no such file or directory'')) \<and>
   handleSettings scenarioWorld
       (appMetadata ''/etc/runtime/missing.toml'' scenarioConfig ''/var/log/runtime.log'') [] =
     ([], Some (PathError ''lstat'' ''/etc/runtime/missing.toml'' ''no such file or directory''))"
proof -
  have h: "snd (EvalSymlinks scenarioWorld ''/etc/runtime/missing.toml'') =
     Some (PathError ''lstat'' ''/etc/runtime/missing.toml'' ''no such file or directory'')"
    by (simp add: scenarioWorld_def scenarioEvalSymlinks_def)
  show ?thesis
    using h config_file_unresolved_aborts [OF h, of "''/var/log/runtime.log''" scenarioConfig "[]"]
    by simp
qed

subsection \<open>The order of the fallible steps\<close>

text \<open>
  Claim C4, amended. The error of \<^verbatim>\<open>getEnvInfo\<close> is the first error in the order of
  its calls: runtime information (resolution of the configuration file), hypervisor
  details, the host probes (kernel version, distribution, CPU), proxy, shim, agent. Any
  error comes with the zero \<^verbatim>\<open>EnvInfo\<close>. In particular an error of the hypervisor
  details is returned whenever the configuration file resolves, whatever the host probes
  do.
\<close>

theorem first_failure_in_code_order:
  "snd (getEnvInfo w configFile logfilePath config) =
     firstError (stepsInCodeOrder w configFile logfilePath config) \<and>
   (snd (getEnvInfo w configFile logfilePath config) \<noteq> None \<longrightarrow>
      fst (getEnvInfo w configFile logfilePath config) = zeroEnvInfo) \<and>
   (snd (getRuntimeInfo w configFile logfilePath config) = None \<and>
    snd (getHypervisorDetails w config) = Some e \<longrightarrow>
      snd (getEnvInfo w configFile logfilePath config) = Some e)"
proof -
  have order: "snd (getEnvInfo w configFile logfilePath config) =
     firstError (stepsInCodeOrder w configFile logfilePath config)"
    unfolding getEnvInfo_error getHostInfo_error stepsInCodeOrder_def
    by (cases "snd (getRuntimeInfo w configFile logfilePath config)";
        cases "snd (getHypervisorDetails w config)";
        cases "snd (getKernelVersion w)";
        cases "snd (snd (getDistroDetails w))";
        cases "snd (snd (getCPUDetails w))") simp_all
  have zero: "snd (getEnvInfo w configFile logfilePath config) \<noteq> None \<longrightarrow>
      fst (getEnvInfo w configFile logfilePath config) = zeroEnvInfo"
    using getEnvInfo_zero by auto
  have hyp: "snd (getRuntimeInfo w configFile logfilePath config) = None \<and>
    snd (getHypervisorDetails w config) = Some e \<longrightarrow>
      snd (getEnvInfo w configFile logfilePath config) = Some e"
    by (simp add: getEnvInfo_error)
  from order zero hyp show ?thesis by blast
qed

theorem first_failure_in_code_order_witness:
  "snd (getRuntimeInfo brokenHostWorld ''/etc/runtime/config.toml'' ''/var/log/runtime.log''
          scenarioConfig) = None \<and>
   snd (getHypervisorDetails brokenHostWorld scenarioConfig) =
     Some (PathError ''lstat'' ''/usr/bin/qemu'' ''no such file or directory'') \<and>
   snd (getEnvInfo brokenHostWorld ''/etc/runtime/config.toml'' ''/var/log/runtime.log''
          scenarioConfig) =
     Some (PathError ''lstat'' ''/usr/bin/qemu'' ''no such file or directory'') \<and>
   fst (getEnvInfo brokenHostWorld ''/etc/runtime/config.toml'' ''/var/log/runtime.log''
          scenarioConfig) = zeroEnvInfo"
proof -
  have run: "snd (getRuntimeInfo brokenHostWorld ''/etc/runtime/config.toml''
                    ''/var/log/runtime.log'' scenarioConfig) = None"
    by (simp add: getRuntimeInfo_error brokenHostWorld_def scenarioWorld_def
        scenarioEvalSymlinks_def)
  have hyp: "snd (getHypervisorDetails brokenHostWorld scenarioConfig) =
     Some (PathError ''lstat'' ''/usr/bin/qemu'' ''no such file or directory'')"
    by (simp add: brokenHostWorld_def scenarioWorld_def scenarioConfig_def)
  note order =
    first_failure_in_code_order [of brokenHostWorld "''/etc/runtime/config.toml''"
      "''/var/log/runtime.log''" scenarioConfig
      "PathError ''lstat'' ''/usr/bin/qemu'' ''no such file or directory''"]
  from order run hyp have err:
    "snd (getEnvInfo brokenHostWorld ''/etc/runtime/config.toml'' ''/var/log/runtime.log''
            scenarioConfig) =
       Some (PathError ''lstat'' ''/usr/bin/qemu'' ''no such file or directory'')"
    by blast
  with order have "fst (getEnvInfo brokenHostWorld ''/etc/runtime/config.toml''
      ''/var/log/runtime.log'' scenarioConfig) = zeroEnvInfo"
    by simp
  with run hyp err show ?thesis by blast
qed

text \<open>
  In the order of the spec's steps the error of the kernel-version probe would come
  first; \<^verbatim>\<open>getEnvInfo\<close> returns the error of \<^verbatim>\<open>getHypervisorDetails\<close>.
\<close>

theorem spec_order_counterexample:
  "snd (getKernelVersion brokenHostWorld) = Some (errorString ''cannot read kernel version'') \<and>
   snd (getHypervisorDetails brokenHostWorld scenarioConfig) =
     Some (PathError ''lstat'' ''/usr/bin/qemu'' ''no such file or directory'') \<and>
   firstError (stepsInSpecOrder brokenHostWorld ''/etc/runtime/config.toml''
       ''/var/log/runtime.log'' scenarioConfig) =
     Some (errorString ''cannot read kernel version'') \<and>
   snd (getEnvInfo brokenHostWorld ''/etc/runtime/config.toml'' ''/var/log/runtime.log''
          scenarioConfig) =
     Some (PathError ''lstat'' ''/usr/bin/qemu'' ''no such file or directory'')"
  by (simp add: getEnvInfo_error getRuntimeInfo_error stepsInSpecOrder_def
      brokenHostWorld_def scenarioWorld_def scenarioEvalSymlinks_def scenarioConfig_def)

subsection \<open>Narrowing the proxy, shim and agent configurations\<close>

lemma firstError_None_iff: "firstError es = None \<longleftrightarrow> (\<forall>x\<in>set es. x = None)"
  by (induction es rule: firstError.induct) auto

lemma getProxyInfo_error:
  "snd (getProxyInfo w config) =
     (if snd (assertCCProxyConfig (ProxyConfig config)) then None
      else Some (errorString ''cannot determine proxy config''))"
  by (simp add: getProxyInfo_def Let_def split: prod.splits bool.splits)

lemma getShimInfo_error:
  "snd (getShimInfo w config) =
     (if snd (assertCCShimConfig (ShimConfig config))
      then snd (EvalSymlinks w (CCShimConfig.Path (fst (assertCCShimConfig (ShimConfig config)))))
      else Some (errorString ''cannot determine shim config''))"
  by (simp add: getShimInfo_def Let_def split: prod.splits bool.splits option.splits)

lemma getAgentInfo_error:
  "snd (getAgentInfo w config) =
     (if snd (assertHyperConfig (AgentConfig config))
      then snd (EvalSymlinks w (PauseBinPath (fst (assertHyperConfig (AgentConfig config)))))
      else Some (errorString ''cannot determine agent config''))"
  by (simp add: getAgentInfo_def Let_def split: prod.splits bool.splits option.splits)

lemma getEnvInfo_failure:
  "snd (getEnvInfo w configFile logfilePath config) = Some e \<Longrightarrow>
   getEnvInfo w configFile logfilePath config = (zeroEnvInfo, Some e)"
  using getEnvInfo_zero [of w configFile logfilePath config e] by (simp add: prod_eq_iff)

text \<open>Unfolding the concrete host and configuration.\<close>

lemmas scenario_defs =
  scenarioWorld_def scenarioEvalSymlinks_def scenarioConfig_def getHypervisorDetails_spec_def

text \<open>
  Claim C1, amended. When the proxy, the shim or the agent configuration is not of its
  expected type, \<^verbatim>\<open>getEnvInfo\<close> returns an error with the zero \<^verbatim>\<open>EnvInfo\<close>, and
  \<^verbatim>\<open>handleSettings\<close> returns that error with standard output as it was. The error
  names the subsystem when every earlier step succeeds: for the proxy these are the
  runtime information, the hypervisor details and the host probes; for the shim, also
  \<^verbatim>\<open>getProxyInfo\<close>; for the agent, also \<^verbatim>\<open>getShimInfo\<close>.
\<close>

theorem narrowing_failure_aborts:
  "(\<not> snd (assertCCProxyConfig (ProxyConfig config)) \<or>
    \<not> snd (assertCCShimConfig (ShimConfig config)) \<or>
    \<not> snd (assertHyperConfig (AgentConfig config)) \<longrightarrow>
      (\<exists>e. getEnvInfo w configFile logfilePath config = (zeroEnvInfo, Some e) \<and>
           handleSettings w (appMetadata configFile config logfilePath) out = (out, Some e))) \<and>
   (snd (getRuntimeInfo w configFile logfilePath config) = None \<and>
    snd (getHypervisorDetails w config) = None \<and>
    snd (getHostInfo w) = None \<longrightarrow>
      (\<not> snd (assertCCProxyConfig (ProxyConfig config)) \<longrightarrow>
         getEnvInfo w configFile logfilePath config =
           (zeroEnvInfo, Some (errorString ''cannot determine proxy config''))) \<and>
      (snd (getProxyInfo w config) = None \<and>
       \<not> snd (assertCCShimConfig (ShimConfig config)) \<longrightarrow>
         getEnvInfo w configFile logfilePath config =
           (zeroEnvInfo, Some (errorString ''cannot determine shim config''))) \<and>
      (snd (getProxyInfo w config) = None \<and>
       snd (getShimInfo w config) = None \<and>
       \<not> snd (assertHyperConfig (AgentConfig config)) \<longrightarrow>
         getEnvInfo w configFile logfilePath config =
           (zeroEnvInfo, Some (errorString ''cannot determine agent config''))))"
proof -
  let ?env = "getEnvInfo w configFile logfilePath config"
  have fails: "\<exists>e. ?env = (zeroEnvInfo, Some e) \<and>
      handleSettings w (appMetadata configFile config logfilePath) out = (out, Some e)"
    if "\<not> snd (assertCCProxyConfig (ProxyConfig config)) \<or>
        \<not> snd (assertCCShimConfig (ShimConfig config)) \<or>
        \<not> snd (assertHyperConfig (AgentConfig config))"
  proof -
    from that have "firstError [snd (getProxyInfo w config), snd (getShimInfo w config),
        snd (getAgentInfo w config)] \<noteq> None"
      unfolding firstError_None_iff
      by (auto simp: getProxyInfo_error getShimInfo_error getAgentInfo_error)
    then have "snd ?env \<noteq> None"
      unfolding getEnvInfo_error firstError_None_iff by auto
    then obtain e where e: "snd ?env = Some e" by blast
    from e have "?env = (zeroEnvInfo, Some e)" by (rule getEnvInfo_failure)
    moreover from e
    have "handleSettings w (appMetadata configFile config logfilePath) out = (out, Some e)"
      by (rule handleSettings_fails)
    ultimately show ?thesis by blast
  qed
  have named: "?env = (zeroEnvInfo, Some (errorString ''cannot determine proxy config''))"
    if "snd (getRuntimeInfo w configFile logfilePath config) = None"
      "snd (getHypervisorDetails w config) = None" "snd (getHostInfo w) = None"
      "\<not> snd (assertCCProxyConfig (ProxyConfig config))"
    using that by (intro getEnvInfo_failure) (simp add: getEnvInfo_error getProxyInfo_error)
  have named_shim: "?env = (zeroEnvInfo, Some (errorString ''cannot determine shim config''))"
    if "snd (getRuntimeInfo w configFile logfilePath config) = None"
      "snd (getHypervisorDetails w config) = None" "snd (getHostInfo w) = None"
      "snd (getProxyInfo w config) = None"
      "\<not> snd (assertCCShimConfig (ShimConfig config))"
    using that by (intro getEnvInfo_failure) (simp add: getEnvInfo_error getShimInfo_error)
  have named_agent: "?env = (zeroEnvInfo, Some (errorString ''cannot determine agent config''))"
    if "snd (getRuntimeInfo w configFile logfilePath config) = None"
      "snd (getHypervisorDetails w config) = None" "snd (getHostInfo w) = None"
      "snd (getProxyInfo w config) = None" "snd (getShimInfo w config) = None"
      "\<not> snd (assertHyperConfig (AgentConfig config))"
    using that by (intro getEnvInfo_failure) (simp add: getEnvInfo_error getAgentInfo_error)
  from fails named named_shim named_agent show ?thesis by blast
qed


theorem narrowing_failure_aborts_witness:
  "getEnvInfo scenarioWorld ''/etc/runtime/config.toml'' ''/var/log/runtime.log''
       (scenarioConfig\<lparr>ProxyConfig := NilValue\<rparr>) =
     (zeroEnvInfo, Some (errorString ''cannot determine proxy config'')) \<and>
   getEnvInfo scenarioWorld ''/etc/runtime/config.toml'' ''/var/log/runtime.log''
       (scenarioConfig\<lparr>ShimConfig := HyperConfigValue \<lparr>PauseBinPath = ''/usr/bin/shim''\<rparr>\<rparr>) =
     (zeroEnvInfo, Some (errorString ''cannot determine shim config'')) \<and>
   getEnvInfo scenarioWorld ''/etc/runtime/config.toml'' ''/var/log/runtime.log''
       (scenarioConfig\<lparr>AgentConfig := OtherValue ''*vc.HyperConfig''\<rparr>) =
     (zeroEnvInfo, Some (errorString ''cannot determine agent config'')) \<and>
   (\<exists>e. getEnvInfo scenarioWorld ''/etc/runtime/config.toml'' ''/var/log/runtime.log''
          (scenarioConfig\<lparr>AgentConfig := OtherValue ''*vc.HyperConfig''\<rparr>) =
        (zeroEnvInfo, Some e) \<and>
      handleSettings scenarioWorld
          (appMetadata ''/etc/runtime/config.toml''
             (scenarioConfig\<lparr>AgentConfig := OtherValue ''*vc.HyperConfig''\<rparr>)
             ''/var/log/runtime.log'') [] =
        ([], Some e))"
proof -
  let ?cf = "''/etc/runtime/config.toml''" and ?lf = "''/var/log/runtime.log''"
  let ?p = "scenarioConfig\<lparr>ProxyConfig := NilValue\<rparr>"
  let ?s = "scenarioConfig\<lparr>ShimConfig := HyperConfigValue \<lparr>PauseBinPath = ''/usr/bin/shim''\<rparr>\<rparr>"
  let ?a = "scenarioConfig\<lparr>AgentConfig := OtherValue ''*vc.HyperConfig''\<rparr>"
  have host: "snd (getHostInfo scenarioWorld) = None"
    by (simp add: getHostInfo_error scenarioWorld_def)
  have run: "snd (getRuntimeInfo scenarioWorld ?cf ?lf c) = None" for c
    by (simp add: getRuntimeInfo_error scenarioWorld_def scenarioEvalSymlinks_def)
  have hyp: "snd (getHypervisorDetails scenarioWorld ?p) = None"
    "snd (getHypervisorDetails scenarioWorld ?s) = None"
    "snd (getHypervisorDetails scenarioWorld ?a) = None"
    by (simp_all add: scenario_defs)
  have p: "\<not> snd (assertCCProxyConfig (ProxyConfig ?p))"
    by (simp add: assertCCProxyConfig_def)
  have s: "snd (getProxyInfo scenarioWorld ?s) = None"
    "\<not> snd (assertCCShimConfig (ShimConfig ?s))"
    by (simp_all add: getProxyInfo_error assertCCProxyConfig_def assertCCShimConfig_def
        scenarioConfig_def)
  have a: "snd (getProxyInfo scenarioWorld ?a) = None"
    "snd (getShimInfo scenarioWorld ?a) = None"
    "\<not> snd (assertHyperConfig (AgentConfig ?a))"
    by (simp_all add: getProxyInfo_error getShimInfo_error assertCCProxyConfig_def
        assertCCShimConfig_def assertHyperConfig_def scenario_defs)
  from narrowing_failure_aborts [of ?p scenarioWorld ?cf ?lf "[]"] host run hyp(1) p
  have "getEnvInfo scenarioWorld ?cf ?lf ?p =
      (zeroEnvInfo, Some (errorString ''cannot determine proxy config''))"
    by blast
  moreover
  from narrowing_failure_aborts [of ?s scenarioWorld ?cf ?lf "[]"] host run hyp(2) s
  have "getEnvInfo scenarioWorld ?cf ?lf ?s =
      (zeroEnvInfo, Some (errorString ''cannot determine shim config''))"
    by blast
  moreover
  from narrowing_failure_aborts [of ?a scenarioWorld ?cf ?lf "[]"] host run hyp(3) a
  have "getEnvInfo scenarioWorld ?cf ?lf ?a =
      (zeroEnvInfo, Some (errorString ''cannot determine agent config''))"
    by blast
  moreover
  from narrowing_failure_aborts [of ?a scenarioWorld ?cf ?lf "[]"] a(3)
  have "\<exists>e. getEnvInfo scenarioWorld ?cf ?lf ?a = (zeroEnvInfo, Some e) \<and>
      handleSettings scenarioWorld (appMetadata ?cf ?a ?lf) [] = ([], Some e)"
    by blast
  ultimately show ?thesis by blast
qed

text \<open>
  The error does not always name the subsystem whose configuration has the wrong type:
  with the proxy and the shim configuration both \<^verbatim>\<open>nil\<close> the error names the proxy,
  not the shim; and with a \<^verbatim>\<open>nil\<close> proxy configuration and a missing configuration file
  the error is that of the path resolution.
\<close>

theorem narrowing_error_counterexample:
  "\<not> snd (assertCCShimConfig
      (ShimConfig (scenarioConfig\<lparr>ProxyConfig := NilValue, ShimConfig := NilValue\<rparr>))) \<and>
   getEnvInfo scenarioWorld ''/etc/runtime/config.toml'' ''/var/log/runtime.log''
       (scenarioConfig\<lparr>ProxyConfig := NilValue, ShimConfig := NilValue\<rparr>) =
     (zeroEnvInfo, Some (errorString ''cannot determine proxy config'')) \<and>
   \<not> snd (assertCCProxyConfig (ProxyConfig (scenarioConfig\<lparr>ProxyConfig := NilValue\<rparr>))) \<and>
   getEnvInfo scenarioWorld ''/etc/runtime/missing.toml'' ''/var/log/runtime.log''
       (scenarioConfig\<lparr>ProxyConfig := NilValue\<rparr>) =
     (zeroEnvInfo,
      Some (PathError ''lstat'' ''/etc/runtime/missing.toml'' ''no such file or directory''))"
proof -
  have "snd (getEnvInfo scenarioWorld ''/etc/runtime/config.toml'' ''/var/log/runtime.log''
       (scenarioConfig\<lparr>ProxyConfig := NilValue, ShimConfig := NilValue\<rparr>)) =
     Some (errorString ''cannot determine proxy config'')"
    by (simp add: getEnvInfo_error getRuntimeInfo_error getHostInfo_error getProxyInfo_error
        assertCCProxyConfig_def scenario_defs)
  moreover
  have "snd (getEnvInfo scenarioWorld ''/etc/runtime/missing.toml'' ''/var/log/runtime.log''
       (scenarioConfig\<lparr>ProxyConfig := NilValue\<rparr>)) =
     Some (PathError ''lstat'' ''/etc/runtime/missing.toml'' ''no such file or directory'')"
    by (simp add: getEnvInfo_error getRuntimeInfo_error scenario_defs)
  ultimately show ?thesis
    by (simp add: getEnvInfo_failure assertCCProxyConfig_def assertCCShimConfig_def)
qed

subsection \<open>A successful snapshot\<close>

lemma getHostInfo_CCCapable:
  "snd (getHostInfo w) = None \<Longrightarrow>
   CCCapable (fst (getHostInfo w)) = (hostIsClearContainersCapable w (procCPUInfo w) = None)"
  by (simp add: getHostInfo_def Let_def split: prod.splits option.splits)

lemma getEnvInfo_success_steps:
  "snd (getEnvInfo w configFile logfilePath config) = None \<Longrightarrow>
   snd (getRuntimeInfo w configFile logfilePath config) = None \<and>
   snd (getHypervisorDetails w config) = None \<and>
   snd (getHostInfo w) = None \<and>
   snd (getProxyInfo w config) = None \<and>
   snd (getShimInfo w config) = None \<and>
   snd (getAgentInfo w config) = None"
  by (simp add: getEnvInfo_error firstError_None_iff)

lemma getEnvInfo_success:
  assumes "snd (getEnvInfo w configFile logfilePath config) = None"
  shows "getEnvInfo w configFile logfilePath config =
     (\<lparr>Meta = getMetaInfo,
       Runtime = fst (getRuntimeInfo w configFile logfilePath config),
       Hypervisor =
         \<lparr>PathInfo.Path = HypervisorPath (HypervisorConfig config),
          Resolved = HypervisorPath (fst (getHypervisorDetails w config))\<rparr>,
       Image =
         \<lparr>PathInfo.Path = ImagePath (HypervisorConfig config),
          Resolved = ImagePath (fst (getHypervisorDetails w config))\<rparr>,
       EnvInfo.Kernel =
         \<lparr>PathInfo.Path = KernelPath (HypervisorConfig config),
          Resolved = KernelPath (fst (getHypervisorDetails w config))\<rparr>,
       Proxy = fst (getProxyInfo w config),
       Shim = fst (getShimInfo w config),
       Agent = fst (getAgentInfo w config),
       Host = fst (getHostInfo w)\<rparr>, None)"
proof -
  note steps = getEnvInfo_success_steps [OF assms]
  obtain r where r: "getRuntimeInfo w configFile logfilePath config = (r, None)"
    using steps by (cases "getRuntimeInfo w configFile logfilePath config") simp
  obtain h where h: "getHypervisorDetails w config = (h, None)"
    using steps by (cases "getHypervisorDetails w config") simp
  obtain hi where hi: "getHostInfo w = (hi, None)"
    using steps by (cases "getHostInfo w") simp
  obtain p where p: "getProxyInfo w config = (p, None)"
    using steps by (cases "getProxyInfo w config") simp
  obtain s where s: "getShimInfo w config = (s, None)"
    using steps by (cases "getShimInfo w config") simp
  obtain a where a: "getAgentInfo w config = (a, None)"
    using steps by (cases "getAgentInfo w config") simp
  show ?thesis
    by (simp add: getEnvInfo_def Let_def r h hi p s a)
qed

lemma getEnvInfo_success_fields:
  "snd (getEnvInfo w configFile logfilePath config) = None \<Longrightarrow>
   Meta (fst (getEnvInfo w configFile logfilePath config)) = getMetaInfo \<and>
   Runtime (fst (getEnvInfo w configFile logfilePath config)) =
     fst (getRuntimeInfo w configFile logfilePath config) \<and>
   Proxy (fst (getEnvInfo w configFile logfilePath config)) = fst (getProxyInfo w config) \<and>
   Shim (fst (getEnvInfo w configFile logfilePath config)) = fst (getShimInfo w config) \<and>
   Agent (fst (getEnvInfo w configFile logfilePath config)) = fst (getAgentInfo w config) \<and>
   Host (fst (getEnvInfo w configFile logfilePath config)) = fst (getHostInfo w)"
  by (simp add: getEnvInfo_success)

subsection \<open>The virtualization-capability probe\<close>

text \<open>
  Claim C2. The error of \<^verbatim>\<open>getHostInfo\<close> is the first error of the kernel, distribution
  and CPU probes: the capability probe is not among them. Replacing the capability probe
  by any other leaves the errors of \<^verbatim>\<open>getHostInfo\<close> and of \<^verbatim>\<open>getEnvInfo\<close> as they are,
  so a call that succeeds with a succeeding probe succeeds with a failing one. In a
  successful result of
  \<^verbatim>\<open>getHostInfo\<close> or \<^verbatim>\<open>getEnvInfo\<close>, \<^verbatim>\<open>CCCapable\<close> is true when the probe returns no
  error and false when it returns one.
\<close>

theorem capability_probe_not_propagated:
  "snd (getHostInfo w) =
     firstError [snd (getKernelVersion w), snd (snd (getDistroDetails w)),
                 snd (snd (getCPUDetails w))] \<and>
   snd (getHostInfo (w\<lparr>hostIsClearContainersCapable := probe\<rparr>)) = snd (getHostInfo w) \<and>
   snd (getEnvInfo (w\<lparr>hostIsClearContainersCapable := probe\<rparr>) configFile logfilePath config) =
     snd (getEnvInfo w configFile logfilePath config) \<and>
   (snd (getHostInfo w) = None \<longrightarrow>
      CCCapable (fst (getHostInfo w)) = (hostIsClearContainersCapable w (procCPUInfo w) = None)) \<and>
   (snd (getEnvInfo w configFile logfilePath config) = None \<longrightarrow>
      CCCapable (Host (fst (getEnvInfo w configFile logfilePath config))) =
        (hostIsClearContainersCapable w (procCPUInfo w) = None))"
proof -
  let ?w = "w\<lparr>hostIsClearContainersCapable := probe\<rparr>"
  have host: "snd (getHostInfo ?w) = snd (getHostInfo w)"
    by (simp add: getHostInfo_error)
  then have "snd (getEnvInfo ?w configFile logfilePath config) =
      snd (getEnvInfo w configFile logfilePath config)"
    unfolding getEnvInfo_error
    by (simp add: getRuntimeInfo_error getProxyInfo_error getShimInfo_error getAgentInfo_error)
  with host show ?thesis
    using getEnvInfo_success_fields [of w configFile logfilePath config]
      getEnvInfo_success_steps [of w configFile logfilePath config]
    by (auto simp: getHostInfo_error [symmetric] getHostInfo_CCCapable)
qed

theorem capability_probe_not_propagated_witness:
  "hostIsClearContainersCapable incapableWorld (procCPUInfo incapableWorld) =
     Some (errorString ''CPU does not support virtualization'') \<and>
   snd (getHostInfo incapableWorld) = None \<and>
   \<not> CCCapable (fst (getHostInfo incapableWorld)) \<and>
   snd (getEnvInfo incapableWorld ''/etc/runtime/config.toml'' ''/var/log/runtime.log''
          scenarioConfig) = None \<and>
   \<not> CCCapable (Host (fst (getEnvInfo incapableWorld ''/etc/runtime/config.toml''
                              ''/var/log/runtime.log'' scenarioConfig))) \<and>
   hostIsClearContainersCapable scenarioWorld (procCPUInfo scenarioWorld) = None \<and>
   snd (getEnvInfo scenarioWorld ''/etc/runtime/config.toml'' ''/var/log/runtime.log''
          scenarioConfig) = None \<and>
   CCCapable (Host (fst (getEnvInfo scenarioWorld ''/etc/runtime/config.toml''
                            ''/var/log/runtime.log'' scenarioConfig)))"
proof -
  let ?cf = "''/etc/runtime/config.toml''" and ?lf = "''/var/log/runtime.log''"
  have ok: "snd (getEnvInfo scenarioWorld ?cf ?lf scenarioConfig) = None"
    by (simp add: getEnvInfo_error getRuntimeInfo_error getHostInfo_error getProxyInfo_error
        getShimInfo_error getAgentInfo_error assertCCProxyConfig_def assertCCShimConfig_def
        assertHyperConfig_def scenario_defs)
  have host: "snd (getHostInfo scenarioWorld) = None"
    by (simp add: getHostInfo_error scenarioWorld_def)
  note scen = capability_probe_not_propagated [where w = scenarioWorld
      and probe = "\<lambda>cpuinfo. Some (errorString ''CPU does not support virtualization'')"
      and configFile = ?cf and logfilePath = ?lf and config = scenarioConfig]
  note inc = capability_probe_not_propagated [where w = incapableWorld
      and probe = "hostIsClearContainersCapable incapableWorld"
      and configFile = ?cf and logfilePath = ?lf and config = scenarioConfig]
  have probe: "hostIsClearContainersCapable incapableWorld (procCPUInfo incapableWorld) =
     Some (errorString ''CPU does not support virtualization'')"
    "hostIsClearContainersCapable scenarioWorld (procCPUInfo scenarioWorld) = None"
    by (simp_all add: incapableWorld_def scenarioWorld_def)
  have "snd (getHostInfo incapableWorld) = None"
    by (simp add: getHostInfo_error incapableWorld_def scenarioWorld_def)
  moreover from scen ok
  have "snd (getEnvInfo incapableWorld ?cf ?lf scenarioConfig) = None"
    by (simp add: incapableWorld_def)
  ultimately have ok': "snd (getHostInfo incapableWorld) = None"
    "snd (getEnvInfo incapableWorld ?cf ?lf scenarioConfig) = None"
    by simp_all
  from inc ok' probe have "\<not> CCCapable (fst (getHostInfo incapableWorld))"
    "\<not> CCCapable (Host (fst (getEnvInfo incapableWorld ?cf ?lf scenarioConfig)))"
    by simp_all
  moreover from scen ok probe
  have "CCCapable (Host (fst (getEnvInfo scenarioWorld ?cf ?lf scenarioConfig)))"
    by simp
  ultimately show ?thesis using probe ok ok' by blast
qed


subsection \<open>The format version\<close>

text \<open>
  Claim C5, amended. The format version is \<^verbatim>\<open>1.0.0\<close>, and every successful result of
  \<^verbatim>\<open>getEnvInfo\<close> carries it in \<^verbatim>\<open>Meta.Version\<close>. \<^verbatim>\<open>getEnvInfo\<close> succeeds when the
  configuration file resolves, the hypervisor details are found, the kernel, distribution
  and CPU probes succeed, the proxy, shim and agent configurations have their expected
  types, and the shim path and the pause binary resolve.
\<close>

theorem format_version_of_snapshot:
  "formatVersion = ''1.0.0'' \<and>
   (snd (getEnvInfo w configFile logfilePath config) = None \<longrightarrow>
      MetaInfo.Version (Meta (fst (getEnvInfo w configFile logfilePath config))) =
        formatVersion) \<and>
   (snd (EvalSymlinks w configFile) = None \<and>
    snd (getHypervisorDetails w config) = None \<and>
    snd (getKernelVersion w) = None \<and>
    snd (snd (getDistroDetails w)) = None \<and>
    snd (snd (getCPUDetails w)) = None \<and>
    snd (assertCCProxyConfig (ProxyConfig config)) \<and>
    snd (assertCCShimConfig (ShimConfig config)) \<and>
    snd (EvalSymlinks w (CCShimConfig.Path (fst (assertCCShimConfig (ShimConfig config))))) =
      None \<and>
    snd (assertHyperConfig (AgentConfig config)) \<and>
    snd (EvalSymlinks w (PauseBinPath (fst (assertHyperConfig (AgentConfig config))))) = None
    \<longrightarrow> snd (getEnvInfo w configFile logfilePath config) = None)"
proof -
  have "MetaInfo.Version (Meta (fst (getEnvInfo w configFile logfilePath config))) =
      formatVersion"
    if "snd (getEnvInfo w configFile logfilePath config) = None"
    using getEnvInfo_success_fields [OF that] by (simp add: getMetaInfo_def)
  moreover have "snd (getEnvInfo w configFile logfilePath config) = None"
    if "snd (EvalSymlinks w configFile) = None"
      "snd (getHypervisorDetails w config) = None"
      "snd (getKernelVersion w) = None"
      "snd (snd (getDistroDetails w)) = None"
      "snd (snd (getCPUDetails w)) = None"
      "snd (assertCCProxyConfig (ProxyConfig config))"
      "snd (assertCCShimConfig (ShimConfig config))"
      "snd (EvalSymlinks w (CCShimConfig.Path (fst (assertCCShimConfig (ShimConfig config))))) =
         None"
      "snd (assertHyperConfig (AgentConfig config))"
      "snd (EvalSymlinks w (PauseBinPath (fst (assertHyperConfig (AgentConfig config))))) = None"
    using that
    by (simp add: getEnvInfo_error getRuntimeInfo_error getHostInfo_error getProxyInfo_error
        getShimInfo_error getAgentInfo_error)
  ultimately show ?thesis by (simp add: formatVersion_def)
qed

theorem format_version_of_snapshot_witness:
  "snd (getEnvInfo scenarioWorld ''/etc/runtime/config.toml'' ''/var/log/runtime.log''
          scenarioConfig) = None \<and>
   MetaInfo.Version (Meta (fst (getEnvInfo scenarioWorld ''/etc/runtime/config.toml''
      ''/var/log/runtime.log'' scenarioConfig))) = ''1.0.0''"
proof -
  have "snd (EvalSymlinks scenarioWorld ''/etc/runtime/config.toml'') = None"
    "snd (getHypervisorDetails scenarioWorld scenarioConfig) = None"
    "snd (getKernelVersion scenarioWorld) = None"
    "snd (snd (getDistroDetails scenarioWorld)) = None"
    "snd (snd (getCPUDetails scenarioWorld)) = None"
    "snd (assertCCProxyConfig (ProxyConfig scenarioConfig))"
    "snd (assertCCShimConfig (ShimConfig scenarioConfig))"
    "snd (EvalSymlinks scenarioWorld
       (CCShimConfig.Path (fst (assertCCShimConfig (ShimConfig scenarioConfig))))) = None"
    "snd (assertHyperConfig (AgentConfig scenarioConfig))"
    "snd (EvalSymlinks scenarioWorld
       (PauseBinPath (fst (assertHyperConfig (AgentConfig scenarioConfig))))) = None"
    by (simp_all add: scenario_defs assertCCProxyConfig_def assertCCShimConfig_def
        assertHyperConfig_def)
  with format_version_of_snapshot [of scenarioWorld "''/etc/runtime/config.toml''"
      "''/var/log/runtime.log''" scenarioConfig]
  show ?thesis by simp
qed

text \<open>
  A valid configuration with resolvable paths is not enough for success: on a host whose
  kernel version cannot be read, \<^verbatim>\<open>getEnvInfo\<close> fails on the configuration of the scenario,
  and the \<^verbatim>\<open>Meta.Version\<close> of what it returns is empty.
\<close>

theorem format_version_counterexample:
  "snd (EvalSymlinks noKernelVersionWorld ''/etc/runtime/config.toml'') = None \<and>
   snd (getHypervisorDetails noKernelVersionWorld scenarioConfig) = None \<and>
   snd (getProxyInfo noKernelVersionWorld scenarioConfig) = None \<and>
   snd (getShimInfo noKernelVersionWorld scenarioConfig) = None \<and>
   snd (getAgentInfo noKernelVersionWorld scenarioConfig) = None \<and>
   getEnvInfo noKernelVersionWorld ''/etc/runtime/config.toml'' ''/var/log/runtime.log''
       scenarioConfig =
     (zeroEnvInfo, Some (errorString ''cannot read kernel version'')) \<and>
   MetaInfo.Version (Meta (fst (getEnvInfo noKernelVersionWorld ''/etc/runtime/config.toml''
      ''/var/log/runtime.log'' scenarioConfig))) \<noteq> formatVersion"
proof -
  have steps: "snd (EvalSymlinks noKernelVersionWorld ''/etc/runtime/config.toml'') = None"
    "snd (getHypervisorDetails noKernelVersionWorld scenarioConfig) = None"
    "snd (getProxyInfo noKernelVersionWorld scenarioConfig) = None"
    "snd (getShimInfo noKernelVersionWorld scenarioConfig) = None"
    "snd (getAgentInfo noKernelVersionWorld scenarioConfig) = None"
    by (simp_all add: getProxyInfo_error getShimInfo_error getAgentInfo_error
        assertCCProxyConfig_def assertCCShimConfig_def assertHyperConfig_def
        noKernelVersionWorld_def scenario_defs)
  have "snd (getEnvInfo noKernelVersionWorld ''/etc/runtime/config.toml''
      ''/var/log/runtime.log'' scenarioConfig) = Some (errorString ''cannot read kernel version'')"
    using steps
    by (simp add: getEnvInfo_error getRuntimeInfo_error getHostInfo_error)
      (simp add: noKernelVersionWorld_def)
  then have "getEnvInfo noKernelVersionWorld ''/etc/runtime/config.toml''
       ''/var/log/runtime.log'' scenarioConfig =
     (zeroEnvInfo, Some (errorString ''cannot read kernel version''))"
    by (rule getEnvInfo_failure)
  with steps show ?thesis
    by (simp add: zeroEnvInfo_def formatVersion_def)
qed

subsection \<open>The proxy information\<close>

text \<open>
  Claim C7. When the proxy configuration is a \<^verbatim>\<open>vc.CCProxyConfig\<close>, \<^verbatim>\<open>getProxyInfo\<close>
  succeeds with the URL of that configuration, the configured proxy type and the constant
  \<^verbatim>\<open>unknown\<close> as version; a successful \<^verbatim>\<open>getEnvInfo\<close> stores this result in \<^verbatim>\<open>Proxy\<close>.
\<close>

theorem proxy_info_fields:
  "(ProxyConfig config = CCProxyConfigValue proxyConfig \<longrightarrow>
      getProxyInfo w config =
        (\<lparr>ProxyInfo.Type = ProxyType config,
          ProxyInfo.Version = unknown w,
          ProxyInfo.URL = CCProxyConfig.URL proxyConfig\<rparr>, None)) \<and>
   (snd (getEnvInfo w configFile logfilePath config) = None \<longrightarrow>
      Proxy (fst (getEnvInfo w configFile logfilePath config)) = fst (getProxyInfo w config))"
  using getEnvInfo_success_fields [of w configFile logfilePath config]
  by (simp add: getProxyInfo_def assertCCProxyConfig_def)

theorem proxy_info_fields_witness:
  "ProxyConfig scenarioConfig = CCProxyConfigValue \<lparr>CCProxyConfig.URL = ''unix:///run/proxy.sock''\<rparr> \<and>
   getProxyInfo scenarioWorld scenarioConfig =
     (\<lparr>ProxyInfo.Type = ''ccProxy'',
       ProxyInfo.Version = ''<<unknown>>'',
       ProxyInfo.URL = ''unix:///run/proxy.sock''\<rparr>, None) \<and>
   Proxy (fst (getEnvInfo scenarioWorld ''/etc/runtime/config.toml'' ''/var/log/runtime.log''
                 scenarioConfig)) =
     \<lparr>ProxyInfo.Type = ''ccProxy'',
      ProxyInfo.Version = ''<<unknown>>'',
      ProxyInfo.URL = ''unix:///run/proxy.sock''\<rparr>"
proof -
  have cfg: "ProxyConfig scenarioConfig =
      CCProxyConfigValue \<lparr>CCProxyConfig.URL = ''unix:///run/proxy.sock''\<rparr>"
    by (simp add: scenarioConfig_def)
  have ok: "snd (getEnvInfo scenarioWorld ''/etc/runtime/config.toml'' ''/var/log/runtime.log''
      scenarioConfig) = None"
    by (simp add: getEnvInfo_error getRuntimeInfo_error getHostInfo_error getProxyInfo_error
        getShimInfo_error getAgentInfo_error assertCCProxyConfig_def assertCCShimConfig_def
        assertHyperConfig_def scenario_defs)
  from proxy_info_fields [of scenarioConfig "\<lparr>CCProxyConfig.URL = ''unix:///run/proxy.sock''\<rparr>"
      scenarioWorld "''/etc/runtime/config.toml''" "''/var/log/runtime.log''"] cfg ok
  show ?thesis by (simp add: scenarioConfig_def scenarioWorld_def)
qed

subsection \<open>The metadata of the application\<close>

lemma assertString_iff: "snd (assertString x) \<longleftrightarrow> (\<exists>s. x = Some (StringValue s))"
  by (auto simp: assertString_def split: option.splits metadata_value.splits)

lemma assertRuntimeConfig_iff:
  "snd (assertRuntimeConfig x) \<longleftrightarrow> (\<exists>c. x = Some (RuntimeConfigValue c))"
  by (auto simp: assertRuntimeConfig_def split: option.splits metadata_value.splits)

text \<open>
  Claim C9. A type assertion on a metadata entry succeeds exactly when the entry is
  present with the asserted dynamic type. \<^verbatim>\<open>handleSettings\<close> checks \<^verbatim>\<open>configFile\<close>, then
  \<^verbatim>\<open>runtimeConfig\<close>, then \<^verbatim>\<open>logfilePath\<close>: at the first entry whose assertion fails it
  returns the error of that entry and leaves standard output as it was, for every host,
  so neither the snapshot nor the renderer has any part in the result.
\<close>

theorem metadata_validated_in_order:
  "(snd (assertString x) \<longleftrightarrow> (\<exists>s. x = Some (StringValue s))) \<and>
   (snd (assertRuntimeConfig x) \<longleftrightarrow> (\<exists>c. x = Some (RuntimeConfigValue c))) \<and>
   (\<not> snd (assertString (metadata ''configFile'')) \<longrightarrow>
      handleSettings w metadata out =
        (out, Some (errorString ''cannot determine config file''))) \<and>
   (snd (assertString (metadata ''configFile'')) \<and>
    \<not> snd (assertRuntimeConfig (metadata ''runtimeConfig'')) \<longrightarrow>
      handleSettings w metadata out =
        (out, Some (errorString ''cannot determine runtime config''))) \<and>
   (snd (assertString (metadata ''configFile'')) \<and>
    snd (assertRuntimeConfig (metadata ''runtimeConfig'')) \<and>
    \<not> snd (assertString (metadata ''logfilePath'')) \<longrightarrow>
      handleSettings w metadata out =
        (out, Some (errorString ''cannot determine logfile config'')))"
proof -
  have first: "handleSettings w metadata out =
      (out, Some (errorString ''cannot determine config file''))"
    if "\<not> snd (assertString (metadata ''configFile''))"
    using that by (cases "assertString (metadata ''configFile'')") (simp add: handleSettings_def)
  have second: "handleSettings w metadata out =
      (out, Some (errorString ''cannot determine runtime config''))"
    if "snd (assertString (metadata ''configFile''))"
      "\<not> snd (assertRuntimeConfig (metadata ''runtimeConfig''))"
    using that
    by (cases "assertString (metadata ''configFile'')";
        cases "assertRuntimeConfig (metadata ''runtimeConfig'')") (simp add: handleSettings_def)
  have third: "handleSettings w metadata out =
      (out, Some (errorString ''cannot determine logfile config''))"
    if "snd (assertString (metadata ''configFile''))"
      "snd (assertRuntimeConfig (metadata ''runtimeConfig''))"
      "\<not> snd (assertString (metadata ''logfilePath''))"
    using that
    by (cases "assertString (metadata ''configFile'')";
        cases "assertRuntimeConfig (metadata ''runtimeConfig'')";
        cases "assertString (metadata ''logfilePath'')") (simp add: handleSettings_def)
  from first second third show ?thesis
    using assertString_iff [of x] assertRuntimeConfig_iff [of x] by blast
qed

theorem metadata_validated_in_order_witness:
  "handleSettings scenarioWorld Map.empty [] =
     ([], Some (errorString ''cannot determine config file'')) \<and>
   handleSettings scenarioWorld
       [''runtimeConfig'' \<mapsto> RuntimeConfigValue scenarioConfig,
        ''logfilePath'' \<mapsto> StringValue ''/var/log/runtime.log'',
        ''configFile'' \<mapsto> BoolValue True] [] =
     ([], Some (errorString ''cannot determine config file'')) \<and>
   handleSettings scenarioWorld
       [''configFile'' \<mapsto> StringValue ''/etc/runtime/missing.toml'',
        ''runtimeConfig'' \<mapsto> StringValue ''config''] [] =
     ([], Some (errorString ''cannot determine runtime config'')) \<and>
   handleSettings scenarioWorld
       [''configFile'' \<mapsto> StringValue ''/etc/runtime/missing.toml'',
        ''runtimeConfig'' \<mapsto> RuntimeConfigValue scenarioConfig,
        ''logfilePath'' \<mapsto> IntValue 3] [] =
     ([], Some (errorString ''cannot determine logfile config''))"
proof -
  let ?m1 = "Map.empty :: string \<rightharpoonup> metadata_value"
  let ?m2 = "[''runtimeConfig'' \<mapsto> RuntimeConfigValue scenarioConfig,
        ''logfilePath'' \<mapsto> StringValue ''/var/log/runtime.log'',
        ''configFile'' \<mapsto> BoolValue True]"
  let ?m3 = "[''configFile'' \<mapsto> StringValue ''/etc/runtime/missing.toml'',
        ''runtimeConfig'' \<mapsto> StringValue ''config'']"
  let ?m4 = "[''configFile'' \<mapsto> StringValue ''/etc/runtime/missing.toml'',
        ''runtimeConfig'' \<mapsto> RuntimeConfigValue scenarioConfig,
        ''logfilePath'' \<mapsto> IntValue 3]"
  have h1: "\<not> snd (assertString (?m1 ''configFile''))"
    and h2: "\<not> snd (assertString (?m2 ''configFile''))"
    and h3: "snd (assertString (?m3 ''configFile''))"
      "\<not> snd (assertRuntimeConfig (?m3 ''runtimeConfig''))"
    and h4: "snd (assertString (?m4 ''configFile''))"
      "snd (assertRuntimeConfig (?m4 ''runtimeConfig''))"
      "\<not> snd (assertString (?m4 ''logfilePath''))"
    by (simp_all add: assertString_def assertRuntimeConfig_def)
  from metadata_validated_in_order [of None ?m1 scenarioWorld "[]"] h1
  have "handleSettings scenarioWorld ?m1 [] =
      ([], Some (errorString ''cannot determine config file''))"
    by blast
  moreover
  from metadata_validated_in_order [of None ?m2 scenarioWorld "[]"] h2
  have "handleSettings scenarioWorld ?m2 [] =
      ([], Some (errorString ''cannot determine config file''))"
    by blast
  moreover
  from metadata_validated_in_order [of None ?m3 scenarioWorld "[]"] h3
  have "handleSettings scenarioWorld ?m3 [] =
      ([], Some (errorString ''cannot determine runtime config''))"
    by blast
  moreover
  from metadata_validated_in_order [of None ?m4 scenarioWorld "[]"] h4
  have "handleSettings scenarioWorld ?m4 [] =
      ([], Some (errorString ''cannot determine logfile config''))"
    by blast
  ultimately show ?thesis by blast
qed

subsection \<open>Version placeholders and the log path\<close>

lemma getRuntimeInfo_GlobalLogPath:
  "snd (getRuntimeInfo w configFile logFile config) = None \<Longrightarrow>
   GlobalLogPath (Config (fst (getRuntimeInfo w configFile logFile config))) = logFile"
  by (simp add: getRuntimeInfo_def Let_def split: prod.splits option.splits)

lemma getProxyInfo_Version:
  "snd (getProxyInfo w config) = None \<Longrightarrow>
   ProxyInfo.Version (fst (getProxyInfo w config)) = unknown w"
  by (simp add: getProxyInfo_def Let_def split: prod.splits bool.splits)

lemma getShimInfo_Version:
  "snd (getShimInfo w config) = None \<Longrightarrow>
   ShimInfo.Version (fst (getShimInfo w config)) = unknown w"
  by (simp add: getShimInfo_def Let_def split: prod.splits bool.splits option.splits)

lemma getAgentInfo_Version:
  "snd (getAgentInfo w config) = None \<Longrightarrow>
   AgentInfo.Version (fst (getAgentInfo w config)) = unknown w"
  by (simp add: getAgentInfo_def Let_def split: prod.splits bool.splits option.splits)

text \<open>
  Claim C10. Whether \<^verbatim>\<open>getEnvInfo\<close> fails, and with which error, does not depend on the
  log path. In a successful result \<^verbatim>\<open>GlobalLogPath\<close> is the log path as given, and the
  versions of the shim, the agent and the proxy are all the constant \<^verbatim>\<open>unknown\<close>.
\<close>

theorem placeholder_versions_and_log_path:
  "snd (getEnvInfo w configFile otherLogfilePath config) =
     snd (getEnvInfo w configFile logfilePath config) \<and>
   (snd (getEnvInfo w configFile logfilePath config) = None \<longrightarrow>
      GlobalLogPath (Config (Runtime (fst (getEnvInfo w configFile logfilePath config)))) =
        logfilePath \<and>
      ShimInfo.Version (Shim (fst (getEnvInfo w configFile logfilePath config))) = unknown w \<and>
      AgentInfo.Version (Agent (fst (getEnvInfo w configFile logfilePath config))) =
        unknown w \<and>
      ProxyInfo.Version (Proxy (fst (getEnvInfo w configFile logfilePath config))) =
        unknown w)"
proof -
  have "snd (getEnvInfo w configFile otherLogfilePath config) =
      snd (getEnvInfo w configFile logfilePath config)"
    by (simp add: getEnvInfo_error getRuntimeInfo_error)
  moreover have "GlobalLogPath (Config (Runtime (fst (getEnvInfo w configFile logfilePath config)))) =
        logfilePath \<and>
      ShimInfo.Version (Shim (fst (getEnvInfo w configFile logfilePath config))) = unknown w \<and>
      AgentInfo.Version (Agent (fst (getEnvInfo w configFile logfilePath config))) =
        unknown w \<and>
      ProxyInfo.Version (Proxy (fst (getEnvInfo w configFile logfilePath config))) =
        unknown w"
    if ok: "snd (getEnvInfo w configFile logfilePath config) = None"
    using getEnvInfo_success_steps [OF ok] getEnvInfo_success_fields [OF ok]
    by (simp add: getRuntimeInfo_GlobalLogPath getProxyInfo_Version getShimInfo_Version
        getAgentInfo_Version)
  ultimately show ?thesis by blast
qed

theorem placeholder_versions_and_log_path_witness:
  "snd (EvalSymlinks scenarioWorld ''/nonexistent/runtime.log'') \<noteq> None \<and>
   snd (getEnvInfo scenarioWorld ''/etc/runtime/config.toml'' ''/nonexistent/runtime.log''
          scenarioConfig) = None \<and>
   GlobalLogPath (Config (Runtime (fst (getEnvInfo scenarioWorld ''/etc/runtime/config.toml''
      ''/nonexistent/runtime.log'' scenarioConfig)))) = ''/nonexistent/runtime.log'' \<and>
   snd (getEnvInfo scenarioWorld ''/etc/runtime/config.toml'' [] scenarioConfig) = None \<and>
   GlobalLogPath (Config (Runtime (fst (getEnvInfo scenarioWorld ''/etc/runtime/config.toml''
      [] scenarioConfig)))) = [] \<and>
   ShimInfo.Version (Shim (fst (getEnvInfo scenarioWorld ''/etc/runtime/config.toml''
      [] scenarioConfig))) = ''<<unknown>>'' \<and>
   AgentInfo.Version (Agent (fst (getEnvInfo scenarioWorld ''/etc/runtime/config.toml''
      [] scenarioConfig))) = ''<<unknown>>''"
proof -
  let ?cf = "''/etc/runtime/config.toml''"
  have ok: "snd (getEnvInfo scenarioWorld ?cf ''/var/log/runtime.log'' scenarioConfig) = None"
    by (simp add: getEnvInfo_error getRuntimeInfo_error getHostInfo_error getProxyInfo_error
        getShimInfo_error getAgentInfo_error assertCCProxyConfig_def assertCCShimConfig_def
        assertHyperConfig_def scenario_defs)
  have missing: "snd (EvalSymlinks scenarioWorld ''/nonexistent/runtime.log'') \<noteq> None"
    by (simp add: scenario_defs)
  note a = placeholder_versions_and_log_path [of scenarioWorld ?cf "''/nonexistent/runtime.log''"
      scenarioConfig "''/var/log/runtime.log''"]
  note b = placeholder_versions_and_log_path [of scenarioWorld ?cf "[]"
      scenarioConfig "''/var/log/runtime.log''"]
  note a' = placeholder_versions_and_log_path [of scenarioWorld ?cf "''/var/log/runtime.log''"
      scenarioConfig "''/nonexistent/runtime.log''"]
  note b' = placeholder_versions_and_log_path [of scenarioWorld ?cf "''/var/log/runtime.log''"
      scenarioConfig "[]"]
  from a ok have oka: "snd (getEnvInfo scenarioWorld ?cf ''/nonexistent/runtime.log''
      scenarioConfig) = None" by simp
  from b ok have okb: "snd (getEnvInfo scenarioWorld ?cf [] scenarioConfig) = None" by simp
  from a' oka b' okb missing show ?thesis
    by (simp add: scenarioWorld_def)
qed

subsection \<open>Paths and their resolved forms\<close>

lemma getRuntimeInfo_Location:
  "snd (getRuntimeInfo w configFile logFile config) = None \<Longrightarrow>
   PathInfo.Path (RuntimeConfigInfo.Location
      (Config (fst (getRuntimeInfo w configFile logFile config)))) = configFile \<and>
   resolvedPathInfo w (RuntimeConfigInfo.Location
      (Config (fst (getRuntimeInfo w configFile logFile config))))"
  by (simp add: getRuntimeInfo_def resolvedPathInfo_def Let_def split: prod.splits option.splits)

lemma getShimInfo_Location:
  "snd (getShimInfo w config) = None \<Longrightarrow>
   PathInfo.Path (ShimInfo.Location (fst (getShimInfo w config))) =
     CCShimConfig.Path (fst (assertCCShimConfig (ShimConfig config))) \<and>
   resolvedPathInfo w (ShimInfo.Location (fst (getShimInfo w config)))"
  by (simp add: getShimInfo_def resolvedPathInfo_def Let_def
      split: prod.splits bool.splits option.splits)

lemma getAgentInfo_PauseBin:
  "snd (getAgentInfo w config) = None \<Longrightarrow>
   PathInfo.Path (PauseBin (fst (getAgentInfo w config))) =
     PauseBinPath (fst (assertHyperConfig (AgentConfig config))) \<and>
   resolvedPathInfo w (PauseBin (fst (getAgentInfo w config)))"
  by (simp add: getAgentInfo_def resolvedPathInfo_def Let_def
      split: prod.splits bool.splits option.splits)

lemma getHypervisorDetails_spec_resolved:
  "snd (getHypervisorDetails_spec resolve config) = None \<Longrightarrow>
   resolve (HypervisorPath (HypervisorConfig config)) =
     (HypervisorPath (fst (getHypervisorDetails_spec resolve config)), None) \<and>
   resolve (ImagePath (HypervisorConfig config)) =
     (ImagePath (fst (getHypervisorDetails_spec resolve config)), None) \<and>
   resolve (KernelPath (HypervisorConfig config)) =
     (KernelPath (fst (getHypervisorDetails_spec resolve config)), None)"
  by (simp add: getHypervisorDetails_spec_def Let_def split: prod.splits option.splits)

lemma pathInfos_of_success:
  assumes spec: "getHypervisorDetails w = getHypervisorDetails_spec (EvalSymlinks w)"
    and ok: "snd (getEnvInfo w configFile logfilePath config) = None"
  shows "map PathInfo.Path (pathInfos (fst (getEnvInfo w configFile logfilePath config))) =
           configuredPaths configFile config"
    and "\<forall>p \<in> set (pathInfos (fst (getEnvInfo w configFile logfilePath config))).
           resolvedPathInfo w p"
proof -
  note steps = getEnvInfo_success_steps [OF ok]
  from steps have r: "PathInfo.Path (RuntimeConfigInfo.Location
      (Config (fst (getRuntimeInfo w configFile logfilePath config)))) = configFile"
    "resolvedPathInfo w (RuntimeConfigInfo.Location
      (Config (fst (getRuntimeInfo w configFile logfilePath config))))"
    by (simp_all add: getRuntimeInfo_Location)
  from steps have s: "PathInfo.Path (ShimInfo.Location (fst (getShimInfo w config))) =
     CCShimConfig.Path (fst (assertCCShimConfig (ShimConfig config)))"
    "resolvedPathInfo w (ShimInfo.Location (fst (getShimInfo w config)))"
    by (simp_all add: getShimInfo_Location)
  from steps have a: "PathInfo.Path (PauseBin (fst (getAgentInfo w config))) =
     PauseBinPath (fst (assertHyperConfig (AgentConfig config)))"
    "resolvedPathInfo w (PauseBin (fst (getAgentInfo w config)))"
    by (simp_all add: getAgentInfo_PauseBin)
  from steps spec have "snd (getHypervisorDetails_spec (EvalSymlinks w) config) = None"
    by simp
  from getHypervisorDetails_spec_resolved [OF this] spec
  have h: "EvalSymlinks w (HypervisorPath (HypervisorConfig config)) =
      (HypervisorPath (fst (getHypervisorDetails w config)), None)"
    "EvalSymlinks w (ImagePath (HypervisorConfig config)) =
      (ImagePath (fst (getHypervisorDetails w config)), None)"
    "EvalSymlinks w (KernelPath (HypervisorConfig config)) =
      (KernelPath (fst (getHypervisorDetails w config)), None)"
    by simp_all
  show "map PathInfo.Path (pathInfos (fst (getEnvInfo w configFile logfilePath config))) =
           configuredPaths configFile config"
    by (simp add: getEnvInfo_success [OF ok] pathInfos_def configuredPaths_def r s a)
  show "\<forall>p \<in> set (pathInfos (fst (getEnvInfo w configFile logfilePath config))).
           resolvedPathInfo w p"
    using r(2) s(2) a(2) h
    by (simp add: getEnvInfo_success [OF ok] pathInfos_def resolvedPathInfo_def)
qed

text \<open>Rendering a successful snapshot, and the document of the scenario.\<close>

lemma handleSettings_succeeds:
  "snd (getEnvInfo w configFile logfilePath config) = None \<Longrightarrow>
   handleSettings w (appMetadata configFile config logfilePath) out =
     showSettings w (fst (getEnvInfo w configFile logfilePath config)) out"
  by (cases "getEnvInfo w configFile logfilePath config") (simp add: handleSettings_appMetadata)

lemma scenario_succeeds:
  "snd (getEnvInfo scenarioWorld ''/etc/runtime/config.toml'' ''/var/log/runtime.log''
          scenarioConfig) = None"
  by (simp add: getEnvInfo_error getRuntimeInfo_error getHostInfo_error getProxyInfo_error
      getShimInfo_error getAgentInfo_error assertCCProxyConfig_def assertCCShimConfig_def
      assertHyperConfig_def scenario_defs)

lemmas document_defs =
  documentLines_def pathInfoLines_def sectionLine_def stringLine_def boolLine_def quoted_def

lemma scenario_document:
  \<open>documentLines (fst (getEnvInfo scenarioWorld ''/etc/runtime/config.toml''
      ''/var/log/runtime.log'' scenarioConfig)) =
     [''[Meta]'',
      ''Version = "1.0.0"'',
      ''[Runtime]'',
      ''[Runtime.Version]'',
      ''Semver = "3.0.0"'',
      ''Commit = "0123abc"'',
      ''OCI = "1.0.0-rc5"'',
      ''[Runtime.Config]'',
      ''GlobalLogPath = "/var/log/runtime.log"'',
      ''[Runtime.Config.Location]'',
      ''Path = "/etc/runtime/config.toml"'',
      ''Resolved = "/etc/runtime/config.toml"'',
      ''[Hypervisor]'',
      ''Path = "/usr/bin/qemu"'',
      ''Resolved = "/usr/bin/qemu"'',
      ''[Image]'',
      ''Path = "/usr/share/image.img"'',
      ''Resolved = "/usr/share/image.img"'',
      ''[Kernel]'',
      ''Path = "/usr/share/vmlinuz"'',
      ''Resolved = "/usr/share/vmlinuz"'',
      ''[Proxy]'',
      ''Type = "ccProxy"'',
      ''Version = "<<unknown>>"'',
      ''URL = "unix:///run/proxy.sock"'',
      ''[Shim]'',
      ''Type = "ccShim"'',
      ''Version = "<<unknown>>"'',
      ''[Shim.Location]'',
      ''Path = "/usr/bin/shim"'',
      ''Resolved = "/usr/bin/shim-v2"'',
      ''[Agent]'',
      ''Type = "hyperstart"'',
      ''Version = "<<unknown>>"'',
      ''[Agent.PauseBin]'',
      ''Path = "/usr/libexec/pause"'',
      ''Resolved = "/usr/libexec/pause"'',
      ''[Host]'',
      ''Kernel = "4.9.0"'',
      ''CCCapable = true'',
      ''[Host.Distro]'',
      ''Name = "clear-linux-os"'',
      ''Version = "16330"'',
      ''[Host.CPU]'',
      ''Vendor = "GenuineIntel"'',
      ''Model = "Intel(R) Core(TM) i7"'']\<close>
  by (subst getEnvInfo_success [OF scenario_succeeds])
    (simp add: document_defs getMetaInfo_def formatVersion_def getRuntimeInfo_def
      getHostInfo_def getProxyInfo_def getShimInfo_def getAgentInfo_def
      assertCCProxyConfig_def assertCCShimConfig_def assertHyperConfig_def scenario_defs
      Let_def)

text \<open>
  Claim C6. Let \<^verbatim>\<open>getHypervisorDetails\<close> be as the spec describes it. In a successful
  result of \<^verbatim>\<open>getEnvInfo\<close> the paths of the six \<^verbatim>\<open>PathInfo\<close> values are the configured
  paths, and the resolved form of each is what symlink resolution returns for its path;
  \<^verbatim>\<open>handleSettings\<close> then hands this \<^verbatim>\<open>EnvInfo\<close> to the encoder and writes the encoder's
  text to standard output (or returns the encoder's error and writes nothing). When
  symlink resolution fails on one of the configured paths, \<^verbatim>\<open>getEnvInfo\<close> fails and
  \<^verbatim>\<open>handleSettings\<close> returns its error with standard output as it was. In the scenario of
  the spec the location of the shim has the path \<^verbatim>\<open>/usr/bin/shim\<close> and the resolved form
  \<^verbatim>\<open>/usr/bin/shim-v2\<close>, and the document that \<^verbatim>\<open>handleSettings\<close> writes, with the
  encoder as the spec describes it, has both in its section \<^verbatim>\<open>Shim.Location\<close>.
\<close>

theorem path_infos_resolved:
  assumes \<open>getHypervisorDetails w = getHypervisorDetails_spec (EvalSymlinks w)\<close>
  shows \<open>(snd (getEnvInfo w configFile logfilePath config) = None \<longrightarrow>
            map PathInfo.Path (pathInfos (fst (getEnvInfo w configFile logfilePath config))) =
              configuredPaths configFile config \<and>
            (\<forall>p \<in> set (pathInfos (fst (getEnvInfo w configFile logfilePath config))).
               resolvedPathInfo w p) \<and>
            handleSettings w (appMetadata configFile config logfilePath) out =
              (case tomlEncode w (fst (getEnvInfo w configFile logfilePath config)) of
                 (buf, Some err) \<Rightarrow> (out, Some err)
               | (buf, None) \<Rightarrow> Fprintf w out buf)) \<and>
         ((\<exists>path \<in> set (configuredPaths configFile config).
             snd (EvalSymlinks w path) \<noteq> None) \<longrightarrow>
            snd (getEnvInfo w configFile logfilePath config) \<noteq> None \<and>
            handleSettings w (appMetadata configFile config logfilePath) out =
              (out, snd (getEnvInfo w configFile logfilePath config))) \<and>
         ShimInfo.Location (Shim (fst (getEnvInfo scenarioWorld ''/etc/runtime/config.toml''
            ''/var/log/runtime.log'' scenarioConfig))) =
           \<lparr>PathInfo.Path = ''/usr/bin/shim'', Resolved = ''/usr/bin/shim-v2''\<rparr> \<and>
         handleSettings scenarioWorld
             (appMetadata ''/etc/runtime/config.toml'' scenarioConfig ''/var/log/runtime.log'')
             [] =
           (unlines
             [''[Meta]'',
              ''Version = "1.0.0"'',
              ''[Runtime]'',
              ''[Runtime.Version]'',
              ''Semver = "3.0.0"'',
              ''Commit = "0123abc"'',
              ''OCI = "1.0.0-rc5"'',
              ''[Runtime.Config]'',
              ''GlobalLogPath = "/var/log/runtime.log"'',
              ''[Runtime.Config.Location]'',
              ''Path = "/etc/runtime/config.toml"'',
              ''Resolved = "/etc/runtime/config.toml"'',
              ''[Hypervisor]'',
              ''Path = "/usr/bin/qemu"'',
              ''Resolved = "/usr/bin/qemu"'',
              ''[Image]'',
              ''Path = "/usr/share/image.img"'',
              ''Resolved = "/usr/share/image.img"'',
              ''[Kernel]'',
              ''Path = "/usr/share/vmlinuz"'',
              ''Resolved = "/usr/share/vmlinuz"'',
              ''[Proxy]'',
              ''Type = "ccProxy"'',
              ''Version = "<<unknown>>"'',
              ''URL = "unix:///run/proxy.sock"'',
              ''[Shim]'',
              ''Type = "ccShim"'',
              ''Version = "<<unknown>>"'',
              ''[Shim.Location]'',
              ''Path = "/usr/bin/shim"'',
              ''Resolved = "/usr/bin/shim-v2"'',
              ''[Agent]'',
              ''Type = "hyperstart"'',
              ''Version = "<<unknown>>"'',
              ''[Agent.PauseBin]'',
              ''Path = "/usr/libexec/pause"'',
              ''Resolved = "/usr/libexec/pause"'',
              ''[Host]'',
              ''Kernel = "4.9.0"'',
              ''CCCapable = true'',
              ''[Host.Distro]'',
              ''Name = "clear-linux-os"'',
              ''Version = "16330"'',
              ''[Host.CPU]'',
              ''Vendor = "GenuineIntel"'',
              ''Model = "Intel(R) Core(TM) i7"''],
            None)\<close>
proof -
  let ?env = "fst (getEnvInfo w configFile logfilePath config)"
  have resolved: "map PathInfo.Path (pathInfos ?env) = configuredPaths configFile config"
    "\<forall>p \<in> set (pathInfos ?env). resolvedPathInfo w p"
    if "snd (getEnvInfo w configFile logfilePath config) = None"
    using pathInfos_of_success [OF assms that] by simp_all
  have rendered: "handleSettings w (appMetadata configFile config logfilePath) out =
      (case tomlEncode w ?env of
         (buf, Some err) \<Rightarrow> (out, Some err)
       | (buf, None) \<Rightarrow> Fprintf w out buf)"
    if "snd (getEnvInfo w configFile logfilePath config) = None"
    using handleSettings_succeeds [OF that] by (simp add: showSettings_def)
  have fails: "snd (getEnvInfo w configFile logfilePath config) \<noteq> None"
    if bad: "\<exists>path \<in> set (configuredPaths configFile config). snd (EvalSymlinks w path) \<noteq> None"
  proof
    assume ok: "snd (getEnvInfo w configFile logfilePath config) = None"
    from bad obtain path where path: "path \<in> set (configuredPaths configFile config)"
      "snd (EvalSymlinks w path) \<noteq> None" by blast
    from path(1) resolved(1) [OF ok] obtain p where "p \<in> set (pathInfos ?env)"
      "PathInfo.Path p = path"
      by (metis (no_types, lifting) image_iff list.set_map)
    with resolved(2) [OF ok] have "snd (EvalSymlinks w path) = None"
      by (auto simp: resolvedPathInfo_def)
    with path(2) show False by simp
  qed
  have unchanged: "handleSettings w (appMetadata configFile config logfilePath) out =
      (out, snd (getEnvInfo w configFile logfilePath config))"
    if "snd (getEnvInfo w configFile logfilePath config) \<noteq> None"
    using that handleSettings_fails [of w configFile logfilePath config _ out] by auto
  have scenario: "ShimInfo.Location (Shim (fst (getEnvInfo scenarioWorld
      ''/etc/runtime/config.toml'' ''/var/log/runtime.log'' scenarioConfig))) =
      \<lparr>PathInfo.Path = ''/usr/bin/shim'', Resolved = ''/usr/bin/shim-v2''\<rparr>"
    by (subst getEnvInfo_success [OF scenario_succeeds])
      (simp add: getShimInfo_def assertCCShimConfig_def scenario_defs Let_def)
  have document: "handleSettings scenarioWorld
      (appMetadata ''/etc/runtime/config.toml'' scenarioConfig ''/var/log/runtime.log'') [] =
      (unlines (documentLines (fst (getEnvInfo scenarioWorld ''/etc/runtime/config.toml''
         ''/var/log/runtime.log'' scenarioConfig))), None)"
    unfolding handleSettings_succeeds [OF scenario_succeeds]
    by (simp add: showSettings_def tomlEncode_spec_def scenarioWorld_def)
  have general: "(snd (getEnvInfo w configFile logfilePath config) = None \<longrightarrow>
      map PathInfo.Path (pathInfos ?env) = configuredPaths configFile config \<and>
      (\<forall>p \<in> set (pathInfos ?env). resolvedPathInfo w p) \<and>
      handleSettings w (appMetadata configFile config logfilePath) out =
        (case tomlEncode w ?env of
           (buf, Some err) \<Rightarrow> (out, Some err)
         | (buf, None) \<Rightarrow> Fprintf w out buf)) \<and>
     ((\<exists>path \<in> set (configuredPaths configFile config).
         snd (EvalSymlinks w path) \<noteq> None) \<longrightarrow>
        snd (getEnvInfo w configFile logfilePath config) \<noteq> None \<and>
        handleSettings w (appMetadata configFile config logfilePath) out =
          (out, snd (getEnvInfo w configFile logfilePath config)))"
    using resolved rendered fails unchanged by blast
  note rendered_scenario = document [unfolded scenario_document]
  from general scenario rendered_scenario show ?thesis
    by (intro conjI) (erule conjE, assumption)+
qed

theorem path_infos_resolved_witness:
  \<open>getHypervisorDetails scenarioWorld = getHypervisorDetails_spec (EvalSymlinks scenarioWorld) \<and>
   snd (getEnvInfo scenarioWorld ''/etc/runtime/config.toml'' ''/var/log/runtime.log''
          scenarioConfig) = None \<and>
   pathInfos (fst (getEnvInfo scenarioWorld ''/etc/runtime/config.toml''
      ''/var/log/runtime.log'' scenarioConfig)) =
     [\<lparr>PathInfo.Path = ''/etc/runtime/config.toml'', Resolved = ''/etc/runtime/config.toml''\<rparr>,
      \<lparr>PathInfo.Path = ''/usr/bin/qemu'', Resolved = ''/usr/bin/qemu''\<rparr>,
      \<lparr>PathInfo.Path = ''/usr/share/image.img'', Resolved = ''/usr/share/image.img''\<rparr>,
      \<lparr>PathInfo.Path = ''/usr/share/vmlinuz'', Resolved = ''/usr/share/vmlinuz''\<rparr>,
      \<lparr>PathInfo.Path = ''/usr/bin/shim'', Resolved = ''/usr/bin/shim-v2''\<rparr>,
      \<lparr>PathInfo.Path = ''/usr/libexec/pause'', Resolved = ''/usr/libexec/pause''\<rparr>] \<and>
   resolvedPathInfo scenarioWorld
     \<lparr>PathInfo.Path = ''/usr/bin/shim'', Resolved = ''/usr/bin/shim-v2''\<rparr> \<and>
   handleSettings scenarioWorld
       (appMetadata ''/etc/runtime/config.toml'' scenarioConfig ''/var/log/runtime.log'') [] =
     (unlines (documentLines (fst (getEnvInfo scenarioWorld ''/etc/runtime/config.toml''
        ''/var/log/runtime.log'' scenarioConfig))), None) \<and>
   pathInfoLines ''Shim.Location''
       (ShimInfo.Location (Shim (fst (getEnvInfo scenarioWorld ''/etc/runtime/config.toml''
          ''/var/log/runtime.log'' scenarioConfig)))) =
     [''[Shim.Location]'', ''Path = "/usr/bin/shim"'', ''Resolved = "/usr/bin/shim-v2"''] \<and>
   snd (EvalSymlinks scenarioWorld ''/usr/bin/missing-shim'') \<noteq> None \<and>
   snd (getEnvInfo scenarioWorld ''/etc/runtime/config.toml'' ''/var/log/runtime.log''
          (scenarioConfig
             \<lparr>ShimConfig := CCShimConfigValue \<lparr>CCShimConfig.Path = ''/usr/bin/missing-shim''\<rparr>\<rparr>))
     \<noteq> None \<and>
   fst (handleSettings scenarioWorld
          (appMetadata ''/etc/runtime/config.toml''
             (scenarioConfig
                \<lparr>ShimConfig :=
                   CCShimConfigValue \<lparr>CCShimConfig.Path = ''/usr/bin/missing-shim''\<rparr>\<rparr>)
             ''/var/log/runtime.log'') []) = []\<close>
proof -
  let ?cf = "''/etc/runtime/config.toml''" and ?lf = "''/var/log/runtime.log''"
  let ?bad = "scenarioConfig
      \<lparr>ShimConfig := CCShimConfigValue \<lparr>CCShimConfig.Path = ''/usr/bin/missing-shim''\<rparr>\<rparr>"
  let ?env = "fst (getEnvInfo scenarioWorld ?cf ?lf scenarioConfig)"
  have spec: "getHypervisorDetails scenarioWorld =
      getHypervisorDetails_spec (EvalSymlinks scenarioWorld)"
    by (simp add: scenarioWorld_def)
  note ok = scenario_succeeds
  have infos: "pathInfos ?env =
     [\<lparr>PathInfo.Path = ''/etc/runtime/config.toml'', Resolved = ''/etc/runtime/config.toml''\<rparr>,
      \<lparr>PathInfo.Path = ''/usr/bin/qemu'', Resolved = ''/usr/bin/qemu''\<rparr>,
      \<lparr>PathInfo.Path = ''/usr/share/image.img'', Resolved = ''/usr/share/image.img''\<rparr>,
      \<lparr>PathInfo.Path = ''/usr/share/vmlinuz'', Resolved = ''/usr/share/vmlinuz''\<rparr>,
      \<lparr>PathInfo.Path = ''/usr/bin/shim'', Resolved = ''/usr/bin/shim-v2''\<rparr>,
      \<lparr>PathInfo.Path = ''/usr/libexec/pause'', Resolved = ''/usr/libexec/pause''\<rparr>]"
    by (subst getEnvInfo_success [OF ok])
      (simp add: pathInfos_def getRuntimeInfo_def getShimInfo_def getAgentInfo_def
        assertCCShimConfig_def assertHyperConfig_def scenario_defs Let_def)
  have missing: "snd (EvalSymlinks scenarioWorld ''/usr/bin/missing-shim'') \<noteq> None"
    "''/usr/bin/missing-shim'' \<in> set (configuredPaths ?cf ?bad)"
    by (simp_all add: configuredPaths_def assertCCShimConfig_def scenario_defs)
  note good = path_infos_resolved [OF spec, of ?cf ?lf scenarioConfig "[]"]
  note bad = path_infos_resolved [OF spec, of ?cf ?lf ?bad "[]"]
  from good ok infos
  have resolved: "resolvedPathInfo scenarioWorld
      \<lparr>PathInfo.Path = ''/usr/bin/shim'', Resolved = ''/usr/bin/shim-v2''\<rparr>"
    by simp
  from good ok
  have "handleSettings scenarioWorld (appMetadata ?cf scenarioConfig ?lf) [] =
      (case tomlEncode scenarioWorld ?env of
         (buf, Some err) \<Rightarrow> ([], Some err)
       | (buf, None) \<Rightarrow> Fprintf scenarioWorld [] buf)"
    by blast
  then have rendered: "handleSettings scenarioWorld (appMetadata ?cf scenarioConfig ?lf) [] =
      (unlines (documentLines ?env), None)"
    by (simp add: scenarioWorld_def tomlEncode_spec_def)
  from good have "ShimInfo.Location (Shim ?env) =
      \<lparr>PathInfo.Path = ''/usr/bin/shim'', Resolved = ''/usr/bin/shim-v2''\<rparr>"
    by blast
  then have shim_lines: \<open>pathInfoLines ''Shim.Location'' (ShimInfo.Location (Shim ?env)) =
      [''[Shim.Location]'', ''Path = "/usr/bin/shim"'', ''Resolved = "/usr/bin/shim-v2"'']\<close>
    by (simp add: pathInfoLines_def sectionLine_def stringLine_def quoted_def)
  from bad missing
  have failed: "snd (getEnvInfo scenarioWorld ?cf ?lf ?bad) \<noteq> None"
    "handleSettings scenarioWorld (appMetadata ?cf ?bad ?lf) [] =
       ([], snd (getEnvInfo scenarioWorld ?cf ?lf ?bad))"
    by blast+
  from failed(2) have "fst (handleSettings scenarioWorld (appMetadata ?cf ?bad ?lf) []) = []"
    by simp
  with spec ok infos resolved rendered shim_lines missing(1) failed(1) show ?thesis
    by (intro conjI)
qed

end
